theory Spec2Isabelle
  imports Complex_Main "HOL-Library.AList" "HOL-Library.Sublist"
begin

section \<open>Python values used by the client\<close>

subsection \<open>Strings\<close>

text \<open>
  A \<^typ>\<open>string\<close> stands for a Python \<open>str\<close> whose code points are below 256; a
  \<^typ>\<open>char\<close> is one code point.  \<open>isspace\<close> is the set of code points below 256 that
  \<open>str.strip()\<close> removes.
\<close>

definition isspace :: "char \<Rightarrow> bool" where
  "isspace c = (c \<in> set [CHR 0x09, CHR 0x0A, CHR 0x0B, CHR 0x0C, CHR 0x0D, CHR 0x1C,
     CHR 0x1D, CHR 0x1E, CHR 0x1F, CHR 0x20, CHR 0x85, CHR 0xA0])"

definition py_strip :: "string \<Rightarrow> string" where
  "py_strip s = rev (dropWhile isspace (rev (dropWhile isspace s)))"

text \<open>\<open>s.split(sep)\<close> for a separator of one character: \<open>cur\<close> is the piece being read.\<close>

fun split_from :: "char \<Rightarrow> string \<Rightarrow> string \<Rightarrow> string list" where
  "split_from sep cur [] = [cur]"
| "split_from sep cur (c # cs) =
     (if c = sep then cur # split_from sep [] cs else split_from sep (cur @ [c]) cs)"

definition py_split :: "char \<Rightarrow> string \<Rightarrow> string list" where
  "py_split sep s = split_from sep [] s"

definition newline :: char where
  "newline = CHR 0x0A"

text \<open>Decimal digits, for \<open>str()\<close> of an integer and for \<open>int()\<close> of a string.\<close>

definition digit_char :: "nat \<Rightarrow> char" where
  "digit_char d = char_of (48 + d)"

fun string_of_nat :: "nat \<Rightarrow> string" where
  "string_of_nat n =
     (if n < 10 then [digit_char n] else string_of_nat (n div 10) @ [digit_char (n mod 10)])"

declare string_of_nat.simps [simp del]

definition string_of_int :: "int \<Rightarrow> string" where
  "string_of_int i = (if i < 0 then CHR ''-'' # string_of_nat (nat (- i)) else string_of_nat (nat i))"

definition is_digit :: "char \<Rightarrow> bool" where
  "is_digit c = (c \<in> set ''0123456789'')"

definition digit_val :: "char \<Rightarrow> nat" where
  "digit_val c = of_char c - 48"

text \<open>
  \<open>int(s)\<close> for a string, base 10.  The whitespace \<open>int()\<close> skips at both ends is narrower
  than that of \<open>str.strip()\<close>: the ASCII white space and, of the code points from 128 on,
  those that count as spaces (0x85 and 0xA0 below 256); the separators 0x1C to 0x1F are not
  skipped.  One sign is allowed, single underscores may stand between digits, and a
  literal of more than \<open>max_str_digits\<close> digits is refused (the interpreter's default
  limit).  \<open>None\<close> is \<open>ValueError\<close>.
\<close>

definition int_space :: "char \<Rightarrow> bool" where
  "int_space c = (c \<in> set [CHR 0x09, CHR 0x0A, CHR 0x0B, CHR 0x0C, CHR 0x0D, CHR 0x20,
     CHR 0x85, CHR 0xA0])"

definition int_strip :: "string \<Rightarrow> string" where
  "int_strip s = rev (dropWhile int_space (rev (dropWhile int_space s)))"

definition max_str_digits :: nat where
  "max_str_digits = 4300"

fun parse_digits :: "nat \<Rightarrow> string \<Rightarrow> nat option" where
  "parse_digits acc [] = Some acc"
| "parse_digits acc (c # cs) =
     (if is_digit c then parse_digits (10 * acc + digit_val c) cs
      else if c = CHR ''_'' then
        (case cs of
           [] \<Rightarrow> None
         | d # ds \<Rightarrow> if is_digit d then parse_digits (10 * acc + digit_val d) ds else None)
      else None)"

definition parse_nat_literal :: "string \<Rightarrow> nat option" where
  "parse_nat_literal s =
     (if length (filter is_digit s) > max_str_digits then None
      else
        (case s of
           [] \<Rightarrow> None
         | c # cs \<Rightarrow> if is_digit c then parse_digits (digit_val c) cs else None))"

definition py_int_of_str :: "string \<Rightarrow> int option" where
  "py_int_of_str s =
     (case int_strip s of
        [] \<Rightarrow> None
      | c # cs \<Rightarrow>
          if c = CHR ''-'' then map_option (\<lambda>n. - int n) (parse_nat_literal cs)
          else if c = CHR ''+'' then map_option int (parse_nat_literal cs)
          else map_option int (parse_nat_literal (c # cs)))"

subsection \<open>JSON values\<close>

text \<open>
  What \<open>json.loads\<close> returns.  \<open>JNull\<close> is Python's \<open>None\<close>; \<open>JObj\<close> is a \<open>dict\<close>, its
  pairs in insertion order, looked up with \<^const>\<open>map_of\<close>.  A \<open>float\<close> is idealised as a
  real number (no rounding, no infinities, no NaN).
\<close>

datatype json =
    JNull
  | JBool bool
  | JInt int
  | JFloat real
  | JStr string
  | JArr "json list"
  | JObj "(string \<times> json) list"

subsection \<open>Exceptions\<close>

text \<open>
  The exceptions of \<open>exceptions.py\<close> with what they carry, the two exceptions of the HTTP
  library, and the built-in exceptions the code can run into.
\<close>

datatype error =
    AuthenticationError string
  | QuerySyntaxError string
  | RateLimitError string int
  | JobTimeoutError string
  | JobFailedError json json
  | HTTPStatusError nat
  | RequestError string
  | JSONDecodeError
  | KeyError
  | IndexError
  | TypeError
  | AttributeError
  | ValueError

text \<open>\<open>d.get(k, default)\<close>: only a \<open>dict\<close> has the method.\<close>

fun py_get :: "json \<Rightarrow> string \<Rightarrow> json \<Rightarrow> error + json" where
  "py_get (JObj kvs) k d = Inr (case map_of kvs k of None \<Rightarrow> d | Some v \<Rightarrow> v)"
| "py_get _ k d = Inl AttributeError"

text \<open>\<open>d[k]\<close> for a string key \<open>k\<close>.\<close>

fun py_item :: "json \<Rightarrow> string \<Rightarrow> error + json" where
  "py_item (JObj kvs) k = (case map_of kvs k of None \<Rightarrow> Inl KeyError | Some v \<Rightarrow> Inr v)"
| "py_item _ k = Inl TypeError"

text \<open>\<open>xs[0]\<close>.  The keys of a \<open>dict\<close> read from JSON are strings, so \<open>0\<close> is never one.\<close>

fun py_first :: "json \<Rightarrow> error + json" where
  "py_first (JArr []) = Inl IndexError"
| "py_first (JArr (x # xs)) = Inr x"
| "py_first (JStr []) = Inl IndexError"
| "py_first (JStr (c # cs)) = Inr (JStr [c])"
| "py_first (JObj kvs) = Inl KeyError"
| "py_first _ = Inl TypeError"

text \<open>\<open>n >= v\<close> for an \<open>int\<close> \<open>n\<close>; \<open>bool\<close> is a subtype of \<open>int\<close>.\<close>

fun py_int_ge :: "int \<Rightarrow> json \<Rightarrow> error + bool" where
  "py_int_ge n (JInt t) = Inr (t \<le> n)"
| "py_int_ge n (JFloat x) = Inr (x \<le> of_int n)"
| "py_int_ge n (JBool b) = Inr ((if b then 1 else 0) \<le> n)"
| "py_int_ge n _ = Inl TypeError"

text \<open>
  \<open>str(v)\<close>, as the f-strings use it.  The text of a \<open>float\<close>, a \<open>list\<close> or a \<open>dict\<close> is
  left to the parameter \<open>other\<close>.
\<close>

fun py_str :: "(json \<Rightarrow> string) \<Rightarrow> json \<Rightarrow> string" where
  "py_str other (JStr s) = s"
| "py_str other (JInt i) = string_of_int i"
| "py_str other (JBool b) = (if b then ''True'' else ''False'')"
| "py_str other JNull = ''None''"
| "py_str other v = other v"

section \<open>The world outside the client\<close>

text \<open>
  An HTTP request as the client builds it, and what comes back: a response, or a network
  failure (\<open>httpx.RequestError\<close>) with its text.
\<close>

datatype http_method = GET | POST

record request =
  req_method :: http_method
  url :: string
  params :: "(string \<times> int) list"
  req_headers :: "(string \<times> string) list"
  payload :: "json option"

record response =
  status_code :: nat
  resp_text :: string
  resp_header :: "string \<Rightarrow> string option"

datatype reply = NetworkError string | Response response

text \<open>
  Everything the client does to the world, in the order it happens: a reading of
  \<open>time.time()\<close> with the value read, an HTTP request, a sleep, and a record handed to the
  consumer of a generator.
\<close>

datatype event = Clock real | Request request | Sleep real | Yield json

type_synonym trace = "event list"

fun is_clock :: "event \<Rightarrow> bool" where
  "is_clock (Clock t) = True"
| "is_clock _ = False"

fun is_request :: "event \<Rightarrow> bool" where
  "is_request (Request rq) = True"
| "is_request _ = False"

definition n_clock :: "trace \<Rightarrow> nat" where
  "n_clock tr = length (filter is_clock tr)"

definition n_requests :: "trace \<Rightarrow> nat" where
  "n_requests tr = length (filter is_request tr)"

text \<open>
  The environment of one run: \<open>clock k\<close> is what the \<open>k\<close>-th call of \<open>time.time()\<close> returns,
  \<open>respond k rq\<close> is the answer to the \<open>k\<close>-th HTTP request when that request is \<open>rq\<close>
  (both counted from 0), \<open>loads\<close> is \<open>json.loads\<close> (\<open>None\<close> for \<open>JSONDecodeError\<close>), and
  \<open>str_other\<close>, \<open>str_float\<close> are \<open>str()\<close> where \<^const>\<open>py_str\<close> leaves it open.
\<close>

record env =
  clock :: "nat \<Rightarrow> real"
  respond :: "nat \<Rightarrow> request \<Rightarrow> reply"
  loads :: "string \<Rightarrow> json option"
  str_other :: "json \<Rightarrow> string"
  str_float :: "real \<Rightarrow> string"

definition time_time :: "env \<Rightarrow> trace \<Rightarrow> real \<times> trace" where
  "time_time e tr = (clock e (n_clock tr), tr @ [Clock (clock e (n_clock tr))])"

definition http :: "env \<Rightarrow> request \<Rightarrow> trace \<Rightarrow> reply \<times> trace" where
  "http e rq tr = (respond e (n_requests tr) rq, tr @ [Request rq])"

text \<open>\<open>response.raise_for_status()\<close> raises unless the status is 2xx.\<close>

definition is_success :: "response \<Rightarrow> bool" where
  "is_success r = (200 \<le> status_code r \<and> status_code r \<le> 299)"

text \<open>How a call ends: it returned, it raised, or it is still running when the fuel is spent.\<close>

datatype outcome = Returned | Raised error | Pending

section \<open>pagination.py\<close>

text \<open>
  The inner loop \<open>for line in lines[1:]\<close>: a line that is not blank is parsed and yielded;
  a line that does not parse raises after the earlier records have been yielded.
\<close>

fun yield_lines :: "env \<Rightarrow> string list \<Rightarrow> trace \<Rightarrow> error option \<times> trace" where
  "yield_lines e [] tr = (None, tr)"
| "yield_lines e (line # rest) tr =
     (if py_strip line \<noteq> [] then
        (case loads e line of
           None \<Rightarrow> (Some JSONDecodeError, tr)
         | Some v \<Rightarrow> yield_lines e rest (tr @ [Yield v]))
      else yield_lines e rest tr)"

definition page_request :: "string \<Rightarrow> (string \<times> string) list \<Rightarrow> int \<Rightarrow> int \<Rightarrow> request" where
  "page_request u hs page_size offset =
     \<lparr> req_method = GET, url = u,
       params = [(''limit'', page_size), (''offset'', offset)],
       req_headers = AList.update ''Accept'' ''application/x-ndjson'' hs,
       payload = None \<rparr>"

text \<open>
  The \<open>while True\<close> loop of \<open>paginate_results\<close>, run for at most \<open>fuel\<close> pages from the
  given offset.  The result is how the generator ends and the trace with its requests and
  the records it yielded.
\<close>

fun paginate_loop ::
  "nat \<Rightarrow> env \<Rightarrow> string \<Rightarrow> (string \<times> string) list \<Rightarrow> int \<Rightarrow> int \<Rightarrow> trace \<Rightarrow> outcome \<times> trace"
where
  "paginate_loop 0 e u hs page_size offset tr = (Pending, tr)"
| "paginate_loop (Suc fuel) e u hs page_size offset tr =
     (case http e (page_request u hs page_size offset) tr of
        (NetworkError m, tr1) \<Rightarrow> (Raised (RequestError m), tr1)
      | (Response r, tr1) \<Rightarrow>
          if \<not> is_success r then (Raised (HTTPStatusError (status_code r)), tr1)
          else
            (case py_split newline (py_strip (resp_text r)) of
               [] \<Rightarrow> (Returned, tr1)
             | first # rest \<Rightarrow>
                 (case loads e first of
                    None \<Rightarrow> (Raised JSONDecodeError, tr1)
                  | Some metadata \<Rightarrow>
                      (case py_get metadata ''totalEventCount'' (JInt 0) of
                         Inl err \<Rightarrow> (Raised err, tr1)
                       | Inr total_count \<Rightarrow>
                           (case yield_lines e rest tr1 of
                              (Some err, tr2) \<Rightarrow> (Raised err, tr2)
                            | (None, tr2) \<Rightarrow>
                                if total_count = JNull then (Returned, tr2)
                                else
                                  (case py_int_ge (offset + page_size) total_count of
                                     Inl err \<Rightarrow> (Raised err, tr2)
                                   | Inr True \<Rightarrow> (Returned, tr2)
                                   | Inr False \<Rightarrow>
                                       paginate_loop fuel e u hs page_size
                                         (offset + page_size) tr2))))))"

definition paginate_results ::
  "nat \<Rightarrow> env \<Rightarrow> string \<Rightarrow> (string \<times> string) list \<Rightarrow> int \<Rightarrow> trace \<Rightarrow> outcome \<times> trace"
where
  "paginate_results fuel e u hs page_size tr = paginate_loop fuel e u hs page_size 0 tr"

definition default_page_size :: int where
  "default_page_size = 1000"

text \<open>What a trace shows: the records yielded and the requests issued, oldest first.\<close>

fun yielded :: "trace \<Rightarrow> json list" where
  "yielded [] = []"
| "yielded (Yield v # tr) = v # yielded tr"
| "yielded (_ # tr) = yielded tr"

fun requests :: "trace \<Rightarrow> request list" where
  "requests [] = []"
| "requests (Request rq # tr) = rq # requests tr"
| "requests (_ # tr) = requests tr"

section \<open>config.py\<close>

record settings =
  client_id :: string
  client_secret :: string
  org_id :: string
  workspace :: string
  auth_url :: string

definition default_auth_url :: string where
  "default_auth_url = ''https://login.cribl.cloud/oauth/token''"

definition api_base_url :: "settings \<Rightarrow> string" where
  "api_base_url s =
     ''https://'' @ workspace s @ ''-'' @ org_id s @ ''.cribl.cloud/api/v1/m/default_search''"

section \<open>auth.py\<close>

text \<open>
  The state of a \<open>TokenManager\<close>: \<open>token\<close> is \<open>_token\<close> (\<^const>\<open>JNull\<close> when it is \<open>None\<close>)
  and \<open>expires_at\<close> is \<open>_expires_at\<close>.
\<close>

record token_manager =
  tm_settings :: settings
  token :: json
  expires_at :: real

definition REFRESH_BUFFER_SECONDS :: real where
  "REFRESH_BUFFER_SECONDS = 300"

definition new_token_manager :: "settings \<Rightarrow> token_manager" where
  "new_token_manager s = \<lparr> tm_settings = s, token = JNull, expires_at = 0 \<rparr>"

text \<open>The property \<open>_is_token_valid\<close>: the clock is read only when a token is there.\<close>

definition is_token_valid :: "env \<Rightarrow> token_manager \<Rightarrow> trace \<Rightarrow> bool \<times> trace" where
  "is_token_valid e tm tr =
     (if token tm = JNull then (False, tr)
      else
        (case time_time e tr of
           (now, tr1) \<Rightarrow> (now < expires_at tm - REFRESH_BUFFER_SECONDS, tr1)))"

definition auth_request :: "settings \<Rightarrow> request" where
  "auth_request s =
     \<lparr> req_method = POST, url = auth_url s, params = [],
       req_headers = [(''Content-Type'', ''application/json'')],
       payload = Some (JObj
         [(''grant_type'', JStr ''client_credentials''),
          (''client_id'', JStr (client_id s)),
          (''client_secret'', JStr (client_secret s)),
          (''audience'', JStr ''https://api.cribl.cloud'')]) \<rparr>"

text \<open>\<open>t + v\<close> for a \<open>float\<close> \<open>t\<close>.\<close>

fun py_float_add :: "real \<Rightarrow> json \<Rightarrow> error + real" where
  "py_float_add t (JInt n) = Inr (t + of_int n)"
| "py_float_add t (JFloat x) = Inr (t + x)"
| "py_float_add t (JBool b) = Inr (t + (if b then 1 else 0))"
| "py_float_add t _ = Inl TypeError"

text \<open>
  \<open>_authenticate\<close>.  Only the two exceptions of the HTTP library are turned into
  \<open>AuthenticationError\<close>; \<open>_token\<close> is assigned before the expiry is computed.
  \<open>response.json()\<close> is \<open>loads\<close> of the response text.
\<close>

definition authenticate :: "env \<Rightarrow> token_manager \<Rightarrow> trace \<Rightarrow> error option \<times> token_manager \<times> trace"
where
  "authenticate e tm tr =
     (case http e (auth_request (tm_settings tm)) tr of
        (NetworkError m, tr1) \<Rightarrow>
          (Some (AuthenticationError (''Authentication request failed: '' @ m)), tm, tr1)
      | (Response r, tr1) \<Rightarrow>
          if \<not> is_success r then
            (Some (AuthenticationError
               (''Authentication failed: '' @ string_of_nat (status_code r) @ '' - '' @ resp_text r)),
             tm, tr1)
          else
            (case loads e (resp_text r) of
               None \<Rightarrow> (Some JSONDecodeError, tm, tr1)
             | Some data \<Rightarrow>
                 (case py_item data ''access_token'' of
                    Inl err \<Rightarrow> (Some err, tm, tr1)
                  | Inr tok \<Rightarrow>
                      (case time_time e tr1 of
                         (now, tr2) \<Rightarrow>
                           (case py_get data ''expires_in'' (JInt 86400) of
                              Inl err \<Rightarrow> (Some err, tm\<lparr>token := tok\<rparr>, tr2)
                            | Inr expires_in \<Rightarrow>
                                (case py_float_add now expires_in of
                                   Inl err \<Rightarrow> (Some err, tm\<lparr>token := tok\<rparr>, tr2)
                                 | Inr t \<Rightarrow>
                                     (None, tm\<lparr>token := tok, expires_at := t\<rparr>, tr2)))))))"

definition get_token :: "env \<Rightarrow> token_manager \<Rightarrow> trace \<Rightarrow> (error + json) \<times> token_manager \<times> trace"
where
  "get_token e tm tr =
     (case is_token_valid e tm tr of
        (valid, tr1) \<Rightarrow>
          if \<not> valid then
            (case authenticate e tm tr1 of
               (Some err, tm1, tr2) \<Rightarrow> (Inl err, tm1, tr2)
             | (None, tm1, tr2) \<Rightarrow> (Inr (token tm1), tm1, tr2))
          else (Inr (token tm), tm, tr1))"

definition clear :: "token_manager \<Rightarrow> token_manager" where
  "clear tm = tm\<lparr>token := JNull, expires_at := 0\<rparr>"

section \<open>job.py\<close>

datatype job_status = NEW | QUEUED | RUNNING | COMPLETED | FAILED | CANCELED

text \<open>\<open>JobStatus(v)\<close>: the member whose value is \<open>v\<close>; \<open>None\<close> is \<open>ValueError\<close>.\<close>

definition JobStatus :: "json \<Rightarrow> job_status option" where
  "JobStatus v =
     (if v = JStr ''new'' then Some NEW
      else if v = JStr ''queued'' then Some QUEUED
      else if v = JStr ''running'' then Some RUNNING
      else if v = JStr ''completed'' then Some COMPLETED
      else if v = JStr ''failed'' then Some FAILED
      else if v = JStr ''canceled'' then Some CANCELED
      else None)"

text \<open>
  A \<open>SearchJob\<close> without its back reference to the client; \<open>job_id\<close> is the field \<open>id\<close>,
  \<open>record_count\<close> is \<^const>\<open>JNull\<close> while it is \<open>None\<close>.
\<close>

record search_job =
  job_id :: json
  status :: job_status
  record_count :: json

definition SearchJob :: "json \<Rightarrow> search_job" where
  "SearchJob i = \<lparr> job_id = i, status = NEW, record_count = JNull \<rparr>"

section \<open>client.py\<close>

text \<open>
  The state of a \<open>SearchClient\<close> is its token manager, whose settings are the client's.
  The HTTP connection object the client creates on first use has no part in what follows.
\<close>

definition get_headers ::
  "env \<Rightarrow> token_manager \<Rightarrow> trace \<Rightarrow> (error + (string \<times> string) list) \<times> token_manager \<times> trace"
where
  "get_headers e tm tr =
     (case get_token e tm tr of
        (Inl err, tm1, tr1) \<Rightarrow> (Inl err, tm1, tr1)
      | (Inr tok, tm1, tr1) \<Rightarrow>
          (Inr [(''Authorization'', ''Bearer '' @ py_str (str_other e) tok),
                (''Content-Type'', ''application/json'')], tm1, tr1))"

definition submit_request ::
  "settings \<Rightarrow> (string \<times> string) list \<Rightarrow> string \<Rightarrow> string \<Rightarrow> string \<Rightarrow> request"
where
  "submit_request s hs query earliest latest =
     \<lparr> req_method = POST, url = api_base_url s @ ''/search/jobs'', params = [],
       req_headers = hs,
       payload = Some (JObj
         [(''query'', JStr query), (''earliest'', JStr earliest), (''latest'', JStr latest),
          (''sampleRate'', JInt 1)]) \<rparr>"

text \<open>\<open>data["items"][0]\<close>.\<close>

definition first_item :: "json \<Rightarrow> error + json" where
  "first_item data = (case py_item data ''items'' of Inl err \<Rightarrow> Inl err | Inr xs \<Rightarrow> py_first xs)"

definition submit_async ::
  "env \<Rightarrow> token_manager \<Rightarrow> string \<Rightarrow> string \<Rightarrow> string \<Rightarrow> trace \<Rightarrow>
     (error + search_job) \<times> token_manager \<times> trace"
where
  "submit_async e tm query earliest latest tr =
     (case get_headers e tm tr of
        (Inl err, tm1, tr1) \<Rightarrow> (Inl err, tm1, tr1)
      | (Inr hs, tm1, tr1) \<Rightarrow>
          (case http e (submit_request (tm_settings tm1) hs query earliest latest) tr1 of
             (NetworkError m, tr2) \<Rightarrow> (Inl (RequestError m), tm1, tr2)
           | (Response r, tr2) \<Rightarrow>
               if status_code r = 400 then
                 (Inl (QuerySyntaxError (''Invalid query: '' @ resp_text r)), tm1, tr2)
               else if status_code r = 429 then
                 (case resp_header r ''Retry-After'' of
                    None \<Rightarrow> (Inl (RateLimitError ''Rate limit exceeded'' 60), tm1, tr2)
                  | Some v \<Rightarrow>
                      (case py_int_of_str v of
                         None \<Rightarrow> (Inl ValueError, tm1, tr2)
                       | Some retry_after \<Rightarrow>
                           (Inl (RateLimitError ''Rate limit exceeded'' retry_after), tm1, tr2)))
               else if \<not> is_success r then (Inl (HTTPStatusError (status_code r)), tm1, tr2)
               else
                 (case loads e (resp_text r) of
                    None \<Rightarrow> (Inl JSONDecodeError, tm1, tr2)
                  | Some data \<Rightarrow>
                      (case first_item data of
                         Inl err \<Rightarrow> (Inl err, tm1, tr2)
                       | Inr item \<Rightarrow>
                           (case py_item item ''id'' of
                              Inl err \<Rightarrow> (Inl err, tm1, tr2)
                            | Inr i \<Rightarrow> (Inr (SearchJob i), tm1, tr2))))))"

definition status_request :: "string \<Rightarrow> (string \<times> string) list \<Rightarrow> request" where
  "status_request u hs =
     \<lparr> req_method = GET, url = u, params = [], req_headers = hs, payload = None \<rparr>"

definition timeout_message :: "env \<Rightarrow> json \<Rightarrow> real \<Rightarrow> string" where
  "timeout_message e i timeout =
     ''Job '' @ py_str (str_other e) i @ '' did not complete within '' @ str_float e timeout
       @ '' seconds''"

text \<open>
  The \<open>while True\<close> loop of \<open>_wait_for_job\<close>, run for at most \<open>fuel\<close> iterations.  The
  result is how the call ends, the job as the loop leaves it, and the trace.
\<close>

fun wait_loop ::
  "nat \<Rightarrow> env \<Rightarrow> real \<Rightarrow> real \<Rightarrow> real \<Rightarrow> string \<Rightarrow> (string \<times> string) list \<Rightarrow> search_job \<Rightarrow> trace \<Rightarrow>
     outcome \<times> search_job \<times> trace"
where
  "wait_loop 0 e start_time timeout poll_interval u hs job tr = (Pending, job, tr)"
| "wait_loop (Suc fuel) e start_time timeout poll_interval u hs job tr =
     (case time_time e tr of
        (now, tr1) \<Rightarrow>
          if now - start_time > timeout then
            (Raised (JobTimeoutError (timeout_message e (job_id job) timeout)), job, tr1)
          else
            (case http e (status_request u hs) tr1 of
               (NetworkError m, tr2) \<Rightarrow> (Raised (RequestError m), job, tr2)
             | (Response r, tr2) \<Rightarrow>
                 if \<not> is_success r then (Raised (HTTPStatusError (status_code r)), job, tr2)
                 else
                   (case loads e (resp_text r) of
                      None \<Rightarrow> (Raised JSONDecodeError, job, tr2)
                    | Some data \<Rightarrow>
                        (case first_item data of
                           Inl err \<Rightarrow> (Raised err, job, tr2)
                         | Inr item \<Rightarrow>
                             (case py_item item ''status'' of
                                Inl err \<Rightarrow> (Raised err, job, tr2)
                              | Inr status_str \<Rightarrow>
                                  (case JobStatus status_str of
                                     None \<Rightarrow> (Raised ValueError, job, tr2)
                                   | Some st \<Rightarrow>
                                       if st = COMPLETED then
                                         (case py_get item ''numEvents'' (JInt 0) of
                                            Inl err \<Rightarrow> (Raised err, job\<lparr>status := st\<rparr>, tr2)
                                          | Inr n \<Rightarrow>
                                              (Returned,
                                               job\<lparr>status := st, record_count := n\<rparr>, tr2))
                                       else if st = FAILED then
                                         (case py_get item ''error'' (JStr ''Unknown error'') of
                                            Inl err \<Rightarrow> (Raised err, job\<lparr>status := st\<rparr>, tr2)
                                          | Inr error_msg \<Rightarrow>
                                              (Raised (JobFailedError error_msg (job_id job)),
                                               job\<lparr>status := st\<rparr>, tr2))
                                       else if st = CANCELED then
                                         (Raised (JobFailedError (JStr ''Job was canceled'')
                                            (job_id job)),
                                          job\<lparr>status := st\<rparr>, tr2)
                                       else
                                         wait_loop fuel e start_time timeout poll_interval u hs
                                           (job\<lparr>status := st\<rparr>)
                                           (tr2 @ [Sleep poll_interval])))))))"

definition status_url :: "env \<Rightarrow> settings \<Rightarrow> json \<Rightarrow> string" where
  "status_url e s i = api_base_url s @ ''/search/jobs/'' @ py_str (str_other e) i @ ''/status''"

definition wait_for_job ::
  "nat \<Rightarrow> env \<Rightarrow> token_manager \<Rightarrow> search_job \<Rightarrow> real \<Rightarrow> real \<Rightarrow> trace \<Rightarrow>
     (outcome \<times> search_job \<times> trace) \<times> token_manager"
where
  "wait_for_job fuel e tm job poll_interval timeout tr =
     (case time_time e tr of
        (start_time, tr1) \<Rightarrow>
          (case get_headers e tm tr1 of
             (Inl err, tm1, tr2) \<Rightarrow> ((Raised err, job, tr2), tm1)
           | (Inr hs, tm1, tr2) \<Rightarrow>
               (wait_loop fuel e start_time timeout poll_interval
                  (status_url e (tm_settings tm1) (job_id job)) hs job tr2, tm1)))"

definition results_url :: "env \<Rightarrow> settings \<Rightarrow> json \<Rightarrow> string" where
  "results_url e s i = api_base_url s @ ''/search/jobs/'' @ py_str (str_other e) i @ ''/results''"

text \<open>\<open>_stream_by_id\<close>: the pager with the default page size, behind the token.\<close>

definition stream_by_id ::
  "nat \<Rightarrow> env \<Rightarrow> token_manager \<Rightarrow> json \<Rightarrow> trace \<Rightarrow> (outcome \<times> trace) \<times> token_manager"
where
  "stream_by_id fuel e tm i tr =
     (case get_headers e tm tr of
        (Inl err, tm1, tr1) \<Rightarrow> ((Raised err, tr1), tm1)
      | (Inr hs, tm1, tr1) \<Rightarrow>
          (paginate_results fuel e (results_url e (tm_settings tm1) i) hs default_page_size tr1,
           tm1))"

section \<open>Vocabulary of the properties\<close>

text \<open>
  The total a metadata object reports: the integer under \<open>totalEventCount\<close>, and 0 when
  the key is absent.
\<close>

definition total_of :: "(string \<times> json) list \<Rightarrow> int option" where
  "total_of md =
     (case map_of md ''totalEventCount'' of
        None \<Rightarrow> Some 0
      | Some (JInt t) \<Rightarrow> Some t
      | Some _ \<Rightarrow> None)"

text \<open>
  The \<open>k\<close>-th request, \<open>rq\<close>, is answered 2xx with an NDJSON body: the first line of the
  stripped body is the object \<open>md\<close>, and the other lines that are not blank are, in order,
  the records \<open>recs\<close>.
\<close>

definition ndjson_page :: "env \<Rightarrow> nat \<Rightarrow> request \<Rightarrow> (string \<times> json) list \<Rightarrow> json list \<Rightarrow> bool" where
  "ndjson_page e k rq md recs =
     (case respond e k rq of
        NetworkError m \<Rightarrow> False
      | Response r \<Rightarrow>
          is_success r \<and>
          (case py_split newline (py_strip (resp_text r)) of
             [] \<Rightarrow> False
           | first # rest \<Rightarrow>
               loads e first = Some (JObj md) \<and>
               map (loads e) (filter (\<lambda>l. py_strip l \<noteq> []) rest) = map Some recs))"

text \<open>
  The \<open>k\<close>-th request, \<open>rq\<close>, is answered 2xx with a JSON body whose \<open>items[0]\<close> is the
  object \<open>item\<close>.
\<close>

definition status_reply :: "env \<Rightarrow> nat \<Rightarrow> request \<Rightarrow> (string \<times> json) list \<Rightarrow> bool" where
  "status_reply e k rq item =
     (case respond e k rq of
        NetworkError m \<Rightarrow> False
      | Response r \<Rightarrow>
          is_success r \<and>
          (case loads e (resp_text r) of
             None \<Rightarrow> False
           | Some data \<Rightarrow> first_item data = Inr (JObj item)))"



text \<open>A call that ended in \<open>RateLimitError\<close>.\<close>

fun raises_rate_limit :: "error + 'a \<Rightarrow> bool" where
  "raises_rate_limit (Inl (RateLimitError m n)) = True"
| "raises_rate_limit _ = False"

text \<open>
  A stretch of trace in which every request comes right after a reading of the clock that
  is not past the timeout.
\<close>

fun guarded :: "real \<Rightarrow> real \<Rightarrow> trace \<Rightarrow> bool" where
  "guarded start_time timeout [] = True"
| "guarded start_time timeout (Clock c # Request rq # tr) =
     (\<not> c - start_time > timeout \<and> guarded start_time timeout tr)"
| "guarded start_time timeout (Request rq # tr) = False"
| "guarded start_time timeout (ev # tr) = guarded start_time timeout tr"

text \<open>The order NEW, QUEUED, RUNNING, then the three terminal statuses.\<close>

definition terminal :: "job_status \<Rightarrow> bool" where
  "terminal st = (st = COMPLETED \<or> st = FAILED \<or> st = CANCELED)"

fun rank :: "job_status \<Rightarrow> nat" where
  "rank NEW = 0"
| "rank QUEUED = 1"
| "rank RUNNING = 2"
| "rank _ = 3"

definition forward :: "job_status \<Rightarrow> job_status \<Rightarrow> bool" where
  "forward st st' = (if terminal st then st' = st else rank st \<le> rank st')"

section \<open>The scenarios of the test suite\<close>

text \<open>The JSON texts the scenarios use, each with the value \<open>json.loads\<close> gives it.\<close>

definition json_table :: "(string \<times> json) list" where
  \<open>json_table =
     [(''{"isFinished":false,"totalEventCount":3,"offset":0}'',
         JObj [(''isFinished'', JBool False), (''totalEventCount'', JInt 3), (''offset'', JInt 0)]),
      (''{"isFinished":true,"totalEventCount":3,"offset":2}'',
         JObj [(''isFinished'', JBool True), (''totalEventCount'', JInt 3), (''offset'', JInt 2)]),
      (''{"isFinished":true,"totalEventCount":2,"offset":0}'',
         JObj [(''isFinished'', JBool True), (''totalEventCount'', JInt 2), (''offset'', JInt 0)]),
      (''{"id":1}'', JObj [(''id'', JInt 1)]),
      (''{"id":2}'', JObj [(''id'', JInt 2)]),
      (''{"id":3}'', JObj [(''id'', JInt 3)]),
      (''{"access_token": "mock-token", "expires_in": 86400}'',
         JObj [(''access_token'', JStr ''mock-token''), (''expires_in'', JInt 86400)]),
      (''{"error": "invalid_client"}'', JObj [(''error'', JStr ''invalid_client'')]),
      (''{"items": [{"status": "running"}]}'',
         JObj [(''items'', JArr [JObj [(''status'', JStr ''running'')]])]),
      (''{"items": [{"status": "completed", "numEvents": 10}]}'',
         JObj [(''items'', JArr [JObj [(''status'', JStr ''completed''), (''numEvents'', JInt 10)]])]),
      (''{"items": [{"status": "failed", "error": "Dataset not found"}]}'',
         JObj [(''items'', JArr [JObj [(''status'', JStr ''failed''),
                                        (''error'', JStr ''Dataset not found'')]])]),
      (''{"items": [{"status": "canceled"}]}'',
         JObj [(''items'', JArr [JObj [(''status'', JStr ''canceled'')]])])]\<close>

definition http_response :: "nat \<Rightarrow> string \<Rightarrow> (string \<times> string) list \<Rightarrow> reply" where
  "http_response code body hs =
     Response \<lparr> status_code = code, resp_text = body, resp_header = map_of hs \<rparr>"

text \<open>
  A mock world: the replies are handed out in the order of the requests, the \<open>k\<close>-th
  reading of the clock is \<open>k\<close> seconds, and a timeout of 2.5 prints as \<open>2.5\<close>.
\<close>

definition mock_env :: "reply list \<Rightarrow> env" where
  "mock_env replies =
     \<lparr> clock = (\<lambda>k. of_nat k),
       respond = (\<lambda>k rq. if k < length replies then replies ! k
                           else NetworkError ''no reply''),
       loads = map_of json_table,
       str_other = (\<lambda>v. ''?''),
       str_float = (\<lambda>x. if x = 5 / 2 then ''2.5'' else ''?'') \<rparr>"

definition test_settings :: settings where
  "test_settings =
     \<lparr> client_id = ''test-client-id'', client_secret = ''test-client-secret'',
       org_id = ''test-org'', workspace = ''test-workspace'', auth_url = default_auth_url \<rparr>"

definition auth_ok :: reply where
  \<open>auth_ok = http_response 200 ''{"access_token": "mock-token", "expires_in": 86400}'' []\<close>

definition auth_denied :: reply where
  \<open>auth_denied = http_response 401 ''{"error": "invalid_client"}'' []\<close>

definition bearer_headers :: "(string \<times> string) list" where
  "bearer_headers =
     [(''Authorization'', ''Bearer mock-token''), (''Content-Type'', ''application/json'')]"

definition page1 :: reply where
  \<open>page1 = http_response 200
     (''{"isFinished":false,"totalEventCount":3,"offset":0}'' @ [newline] @
      ''{"id":1}'' @ [newline] @ ''{"id":2}'' @ [newline]) []\<close>

definition page2 :: reply where
  \<open>page2 = http_response 200
     (''{"isFinished":true,"totalEventCount":3,"offset":2}'' @ [newline] @
      ''{"id":3}'' @ [newline]) []\<close>

definition blank_lines_page :: reply where
  \<open>blank_lines_page = http_response 200
     (''{"isFinished":true,"totalEventCount":2,"offset":0}'' @ [newline] @ [newline] @
      ''{"id":1}'' @ [newline] @ [newline] @ ''{"id":2}'' @ [newline] @ [newline]) []\<close>

text \<open>A 429 whose \<open>Retry-After\<close> is an HTTP date, the other form the header may take.\<close>

definition rate_limited_until :: reply where
  "rate_limited_until =
     http_response 429 [] [(''Retry-After'', ''Wed, 21 Oct 2015 07:28:00 GMT'')]"

definition status_running :: reply where
  \<open>status_running = http_response 200 ''{"items": [{"status": "running"}]}'' []\<close>

definition status_completed :: reply where
  \<open>status_completed =
     http_response 200 ''{"items": [{"status": "completed", "numEvents": 10}]}'' []\<close>

definition status_failed :: reply where
  \<open>status_failed =
     http_response 200 ''{"items": [{"status": "failed", "error": "Dataset not found"}]}'' []\<close>

definition status_canceled :: reply where
  \<open>status_canceled = http_response 200 ''{"items": [{"status": "canceled"}]}'' []\<close>


definition stale_manager :: token_manager where
  "stale_manager =
     \<lparr> tm_settings = test_settings, token = JStr ''old-token'', expires_at = 60 \<rparr>"

definition job_123 :: search_job where
  "job_123 = SearchJob (JStr ''job-123'')"

text \<open>A job that a wait call has already seen completed.\<close>

definition completed_job :: search_job where
  "completed_job = \<lparr> job_id = JStr ''job-123'', status = COMPLETED, record_count = JInt 10 \<rparr>"

definition status_url_123 :: string where
  "status_url_123 =
     ''https://test-workspace-test-org.cribl.cloud/api/v1/m/default_search/search/jobs/job-123/status''"

section \<open>Facts about the Python values and the trace\<close>

lemma split_from_nonempty: "split_from sep cur s \<noteq> []"
  by (induction s arbitrary: cur) auto

lemma py_split_nonempty: "py_split sep s \<noteq> []"
  by (simp add: py_split_def split_from_nonempty)

lemma py_split_empty: "py_split sep [] = [[]]"
  by (simp add: py_split_def)

lemma py_strip_empty: "py_strip [] = []"
  by (simp add: py_strip_def)

lemma yield_lines_parsed:
  "map (loads e) (filter (\<lambda>l. py_strip l \<noteq> []) ls) = map Some recs \<Longrightarrow>
   yield_lines e ls tr = (None, tr @ map Yield recs)"
proof (induction ls arbitrary: tr recs)
  case Nil
  then show ?case by simp
next
  case (Cons l ls)
  show ?case
  proof (cases "py_strip l \<noteq> []")
    case True
    with Cons.prems obtain v vs where r: "recs = v # vs" "loads e l = Some v"
      "map (loads e) (filter (\<lambda>l. py_strip l \<noteq> []) ls) = map Some vs"
      by (cases recs) auto
    from Cons.IH [OF r(3)] True r(1,2) show ?thesis by simp
  next
    case False
    with Cons.prems Cons.IH show ?thesis by simp
  qed
qed

lemma total_of_get:
  "total_of md = Some T \<Longrightarrow> py_get (JObj md) ''totalEventCount'' (JInt 0) = Inr (JInt T)"
  by (auto simp: total_of_def split: option.splits json.splits)

lemma paginate_page:
  assumes "respond e (n_requests tr) (page_request u hs p off) = Response r"
    and "is_success r"
    and "py_split newline (py_strip (resp_text r)) = first # rest"
    and "loads e first = Some (JObj md)"
    and "total_of md = Some T"
    and "map (loads e) (filter (\<lambda>l. py_strip l \<noteq> []) rest) = map Some recs"
  shows "paginate_loop (Suc fuel) e u hs p off tr =
           (if T \<le> off + p
            then (Returned, tr @ Request (page_request u hs p off) # map Yield recs)
            else paginate_loop fuel e u hs p (off + p)
                   (tr @ Request (page_request u hs p off) # map Yield recs))"
  using assms(1-4) total_of_get [OF assms(5)] yield_lines_parsed [OF assms(6)]
  by (simp add: http_def)

lemma ndjson_pageD:
  assumes "ndjson_page e k rq md recs"
  obtains r first rest where "respond e k rq = Response r" "is_success r"
    "py_split newline (py_strip (resp_text r)) = first # rest"
    "loads e first = Some (JObj md)"
    "map (loads e) (filter (\<lambda>l. py_strip l \<noteq> []) rest) = map Some recs"
  using assms by (auto simp: ndjson_page_def split: reply.splits list.splits)

lemma ndjson_page_step:
  assumes "ndjson_page e (n_requests tr) (page_request u hs p off) md recs"
    and "total_of md = Some T"
  shows "paginate_loop (Suc fuel) e u hs p off tr =
           (if T \<le> off + p
            then (Returned, tr @ Request (page_request u hs p off) # map Yield recs)
            else paginate_loop fuel e u hs p (off + p)
                   (tr @ Request (page_request u hs p off) # map Yield recs))"
proof -
  from assms(1) obtain r first rest where pg:
    "respond e (n_requests tr) (page_request u hs p off) = Response r" "is_success r"
    "py_split newline (py_strip (resp_text r)) = first # rest"
    "loads e first = Some (JObj md)"
    "map (loads e) (filter (\<lambda>l. py_strip l \<noteq> []) rest) = map Some recs"
    by (rule ndjson_pageD)
  show ?thesis
    by (rule paginate_page [OF pg(1) pg(2) pg(3) pg(4) assms(2) pg(5)])
qed

lemma yielded_append: "yielded (a @ b) = yielded a @ yielded b"
  by (induction a rule: yielded.induct) auto

lemma yielded_map_Yield: "yielded (map Yield vs) = vs"
  by (induction vs) auto

lemma requests_append: "requests (a @ b) = requests a @ requests b"
  by (induction a rule: requests.induct) auto

lemma requests_map_Yield: "requests (map Yield vs) = []"
  by (induction vs) auto

lemma n_requests_page: "n_requests (tr @ Request rq # map Yield vs) = Suc (n_requests tr)"
  by (induction vs) (auto simp: n_requests_def)

section \<open>The pager\<close>

text \<open>
  Claim C1 says that a 2xx response with an empty body ends pagination at once, without an
  error.  The code does not do that: \<open>"".strip().split("\n")\<close> is the list \<open>[""]\<close>, never
  the empty list (\<open>py_split_nonempty\<close>), so the test \<open>if not lines\<close> never holds, and
  \<open>json.loads("")\<close> raises.  With an empty body and a \<open>json.loads\<close> that rejects the empty
  string, the pager raises \<open>JSONDecodeError\<close> right after its request.
\<close>

theorem C1_empty_body_raises:
  assumes "respond e (n_requests tr) (page_request u hs p off) = Response r"
    and "is_success r" and "resp_text r = []" and "loads e [] = None"
  shows "paginate_loop (Suc fuel) e u hs p off tr =
           (Raised JSONDecodeError, tr @ [Request (page_request u hs p off)])"
  using assms by (simp add: http_def py_strip_empty py_split_empty)

text \<open>The same on the mock world, with the default page size.\<close>

theorem C1_empty_body_raises_witness:
  "paginate_results 1 (mock_env [http_response 200 [] []]) ''https://api.example.com/results''
     [] default_page_size [] =
   (Raised JSONDecodeError,
    [Request (page_request ''https://api.example.com/results'' [] default_page_size 0)])"
proof -
  let ?e = "mock_env [http_response 200 [] []]"
  let ?u = "''https://api.example.com/results''"
  let ?r = "\<lparr> status_code = 200, resp_text = [], resp_header = map_of [] \<rparr>"
  have h1: "respond ?e (n_requests []) (page_request ?u [] default_page_size 0) = Response ?r"
    by (simp add: mock_env_def http_response_def n_requests_def)
  have h2: "is_success ?r" by (simp add: is_success_def)
  have h3: "resp_text ?r = []" by simp
  have h4: "loads ?e [] = None" by (simp add: mock_env_def json_table_def)
  show ?thesis
    using C1_empty_body_raises [OF h1 h2 h3 h4, of 0]
    by (simp add: paginate_results_def)
qed

text \<open>
  Claim C4: a page whose stripped body has the metadata object \<open>md\<close> as its first line,
  reporting the total \<open>T\<close> (0 when \<open>totalEventCount\<close> is absent), and whose other lines that
  are not blank parse to the records \<open>recs\<close>: the pager yields exactly \<open>recs\<close>, in the order
  of the lines and right after its request, blank lines yield nothing, and \<open>T\<close> decides
  whether another page is asked for.  The number of records yielded is the number of lines
  after the first that are not blank.
\<close>

theorem C4_page_records:
  assumes "respond e (n_requests tr) (page_request u hs p off) = Response r"
    and "is_success r"
    and "py_split newline (py_strip (resp_text r)) = first # rest"
    and "loads e first = Some (JObj md)"
    and "total_of md = Some T"
    and "map (loads e) (filter (\<lambda>l. py_strip l \<noteq> []) rest) = map Some recs"
  shows "paginate_loop (Suc fuel) e u hs p off tr =
           (if T \<le> off + p
            then (Returned, tr @ Request (page_request u hs p off) # map Yield recs)
            else paginate_loop fuel e u hs p (off + p)
                   (tr @ Request (page_request u hs p off) # map Yield recs))
         \<and> length recs = length (filter (\<lambda>l. py_strip l \<noteq> []) rest)"
proof -
  have "length (map (loads e) (filter (\<lambda>l. py_strip l \<noteq> []) rest)) = length (map Some recs)"
    using assms(6) by simp
  then have len: "length recs = length (filter (\<lambda>l. py_strip l \<noteq> []) rest)" by simp
  show ?thesis
    using assms(1-4) total_of_get [OF assms(5)] yield_lines_parsed [OF assms(6)] len
    by (simp add: http_def)
qed

text \<open>The body of the test \<open>test_skips_blank_lines\<close>: two records between blank lines.\<close>

theorem C4_page_records_witness:
  \<open>paginate_loop 1 (mock_env [blank_lines_page]) ''https://api.example.com/results'' []
     default_page_size 0 [] =
   (Returned,
    [Request (page_request ''https://api.example.com/results'' [] default_page_size 0),
     Yield (JObj [(''id'', JInt 1)]), Yield (JObj [(''id'', JInt 2)])])\<close>
proof -
  let ?e = "mock_env [blank_lines_page]"
  let ?u = "''https://api.example.com/results''"
  let ?body = \<open>''{"isFinished":true,"totalEventCount":2,"offset":0}'' @ [newline] @ [newline] @
      ''{"id":1}'' @ [newline] @ [newline] @ ''{"id":2}'' @ [newline] @ [newline]\<close>
  let ?r = "\<lparr> status_code = 200, resp_text = ?body, resp_header = map_of [] \<rparr>"
  let ?md = "[(''isFinished'', JBool True), (''totalEventCount'', JInt 2), (''offset'', JInt 0)]"
  have h1: "respond ?e (n_requests []) (page_request ?u [] default_page_size 0) = Response ?r"
    by (simp add: mock_env_def http_response_def n_requests_def blank_lines_page_def)
  have h2: "is_success ?r" by (simp add: is_success_def)
  have h3: \<open>py_split newline (py_strip (resp_text ?r)) =
      ''{"isFinished":true,"totalEventCount":2,"offset":0}'' # ['''', ''{"id":1}'', '''', ''{"id":2}'']\<close>
    by code_simp
  have h4: \<open>loads ?e ''{"isFinished":true,"totalEventCount":2,"offset":0}'' = Some (JObj ?md)\<close>
    by code_simp
  have h5: "total_of ?md = Some 2" by code_simp
  have h6: \<open>map (loads ?e) (filter (\<lambda>l. py_strip l \<noteq> []) ['''', ''{"id":1}'', '''', ''{"id":2}'']) =
      map Some [JObj [(''id'', JInt 1)], JObj [(''id'', JInt 2)]]\<close>
    by code_simp
  show ?thesis
    using C4_page_records [OF h1 h2 h3 h4 h5 h6, of 0]
    by (simp add: default_page_size_def)
qed

text \<open>
  Claim C3: a result set of two pages.  Every page reports the total \<open>T\<close> and the page size
  \<open>p\<close> is such that \<open>p < T \<le> 2 * p\<close> (the claim has \<open>T = 3\<close> and \<open>p = 2\<close>).  The pager issues
  exactly two requests, the first with offset 0 and the second with offset \<open>p\<close>; it goes on
  after the first page because \<open>p < T\<close>, stops after the second because \<open>T \<le> 2 * p\<close>, and
  has yielded the records of the first page and then those of the second, in order.
\<close>

theorem C3_two_pages:
  assumes "ndjson_page e (n_requests tr) (page_request u hs p 0) md1 recs1"
    and "total_of md1 = Some T"
    and "ndjson_page e (Suc (n_requests tr)) (page_request u hs p p) md2 recs2"
    and "total_of md2 = Some T"
    and "p < T" and "T \<le> 2 * p"
  shows "paginate_results (Suc (Suc fuel)) e u hs p tr =
           (Returned,
            tr @ Request (page_request u hs p 0) # map Yield recs1
               @ Request (page_request u hs p p) # map Yield recs2)
       \<and> requests (snd (paginate_results (Suc (Suc fuel)) e u hs p tr)) =
           requests tr @ [page_request u hs p 0, page_request u hs p p]
       \<and> yielded (snd (paginate_results (Suc (Suc fuel)) e u hs p tr)) =
           yielded tr @ recs1 @ recs2"
proof -
  let ?tr1 = "tr @ Request (page_request u hs p 0) # map Yield recs1"
  have first: "paginate_loop (Suc (Suc fuel)) e u hs p 0 tr = paginate_loop (Suc fuel) e u hs p p ?tr1"
    using ndjson_page_step [OF assms(1,2), of "Suc fuel"] assms(5) by simp
  have "ndjson_page e (n_requests ?tr1) (page_request u hs p (0 + p)) md2 recs2"
    using assms(3) by (simp add: n_requests_page)
  then have "ndjson_page e (n_requests ?tr1) (page_request u hs p p) md2 recs2" by simp
  from ndjson_page_step [OF this assms(4), of fuel] assms(6)
  have second: "paginate_loop (Suc fuel) e u hs p p ?tr1 =
      (Returned, ?tr1 @ Request (page_request u hs p p) # map Yield recs2)"
    by simp
  have res: "paginate_results (Suc (Suc fuel)) e u hs p tr =
      (Returned, ?tr1 @ Request (page_request u hs p p) # map Yield recs2)"
    unfolding paginate_results_def using first second by simp
  show ?thesis
    unfolding res
    by (simp add: requests_append requests_map_Yield yielded_append yielded_map_Yield)
qed

text \<open>
  The two pages of the test \<open>test_paginates_across_multiple_pages\<close>: two requests, with
  offsets 0 and 2, and the records with ids 1, 2, 3 in that order.
\<close>

theorem C3_two_pages_witness:
  "paginate_results 2 (mock_env [page1, page2]) ''https://api.example.com/results'' [] 2 [] =
     (Returned,
      [Request (page_request ''https://api.example.com/results'' [] 2 0),
       Yield (JObj [(''id'', JInt 1)]), Yield (JObj [(''id'', JInt 2)]),
       Request (page_request ''https://api.example.com/results'' [] 2 2),
       Yield (JObj [(''id'', JInt 3)])])
   \<and> map params (requests (snd (paginate_results 2 (mock_env [page1, page2])
        ''https://api.example.com/results'' [] 2 []))) =
       [[(''limit'', 2), (''offset'', 0)], [(''limit'', 2), (''offset'', 2)]]
   \<and> yielded (snd (paginate_results 2 (mock_env [page1, page2])
        ''https://api.example.com/results'' [] 2 [])) =
       [JObj [(''id'', JInt 1)], JObj [(''id'', JInt 2)], JObj [(''id'', JInt 3)]]"
proof -
  let ?e = "mock_env [page1, page2]"
  let ?u = "''https://api.example.com/results''"
  let ?md1 = "[(''isFinished'', JBool False), (''totalEventCount'', JInt 3), (''offset'', JInt 0)]"
  let ?md2 = "[(''isFinished'', JBool True), (''totalEventCount'', JInt 3), (''offset'', JInt 2)]"
  have h1: "ndjson_page ?e (n_requests []) (page_request ?u [] 2 0) ?md1
      [JObj [(''id'', JInt 1)], JObj [(''id'', JInt 2)]]"
    by code_simp
  have h2: "total_of ?md1 = Some 3" by code_simp
  have h3: "ndjson_page ?e (Suc (n_requests [])) (page_request ?u [] 2 2) ?md2
      [JObj [(''id'', JInt 3)]]"
    by code_simp
  have h4: "total_of ?md2 = Some 3" by code_simp
  have h5: "(2::int) < 3" by simp
  have h6: "(3::int) \<le> 2 * 2" by simp
  show ?thesis
    using C3_two_pages [OF h1 h2 h3 h4 h5 h6, of 0]
    by (simp add: numeral_2_eq_2 page_request_def)
qed

section \<open>The token cache\<close>

lemma n_clock_snoc [simp]:
  "n_clock (tr @ [Clock c]) = Suc (n_clock tr)"
  "n_clock (tr @ [Request rq]) = n_clock tr"
  "n_clock (tr @ [Sleep d]) = n_clock tr"
  "n_clock (tr @ [Yield v]) = n_clock tr"
  by (simp_all add: n_clock_def)

lemma n_requests_snoc [simp]:
  "n_requests (tr @ [Clock c]) = n_requests tr"
  "n_requests (tr @ [Request rq]) = Suc (n_requests tr)"
  "n_requests (tr @ [Sleep d]) = n_requests tr"
  "n_requests (tr @ [Yield v]) = n_requests tr"
  by (simp_all add: n_requests_def)

lemma requests_snoc [simp]:
  "requests (tr @ [Clock c]) = requests tr"
  "requests (tr @ [Request rq]) = requests tr @ [rq]"
  "requests (tr @ [Sleep d]) = requests tr"
  "requests (tr @ [Yield v]) = requests tr"
  by (simp_all add: requests_append)

declare requests_append [simp]


lemma py_item_error: "py_item d k = Inl err \<Longrightarrow> err = KeyError \<or> err = TypeError"
  by (cases d) (auto split: option.splits)

lemma py_get_error: "py_get d k v = Inl err \<Longrightarrow> err = AttributeError"
  by (cases d) auto

lemma py_float_add_error: "py_float_add t v = Inl err \<Longrightarrow> err = TypeError"
  by (cases v) auto

lemma authenticate_error_state:
  "authenticate e tm tr = (Some (AuthenticationError m), tm', tr') \<Longrightarrow> tm' = tm"
  by (auto simp: authenticate_def http_def time_time_def
      split: reply.splits if_splits option.splits sum.splits prod.splits
      dest: py_item_error py_get_error py_float_add_error)






text \<open>
  Claim C10: when \<open>get_token\<close> raises \<open>AuthenticationError\<close>, the cache is unchanged: the
  token and its expiry are what they were before the call.
\<close>

theorem C10_auth_error_keeps_cache:
  "get_token e tm tr = (Inl (AuthenticationError m), tm', tr') \<Longrightarrow>
     tm' = tm \<and> token tm' = token tm \<and> expires_at tm' = expires_at tm"
proof -
  assume g: "get_token e tm tr = (Inl (AuthenticationError m), tm', tr')"
  obtain valid tr1 where v: "is_token_valid e tm tr = (valid, tr1)"
    by (cases "is_token_valid e tm tr") auto
  have "tm' = tm"
  proof (cases valid)
    case True
    with g v show ?thesis by (simp add: get_token_def)
  next
    case False
    obtain r tm1 tr2 where a: "authenticate e tm tr1 = (r, tm1, tr2)"
      by (cases "authenticate e tm tr1") auto
    with g v False have "r = Some (AuthenticationError m)" "tm1 = tm'"
      by (cases r; simp add: get_token_def)+
    with a authenticate_error_state show ?thesis by blast
  qed
  then show ?thesis by simp
qed


text \<open>A refresh that the server answers with 401 leaves the old token and its expiry.\<close>

theorem C10_auth_error_keeps_cache_witness:
  \<open>get_token (mock_env [auth_denied]) stale_manager [] =
     (Inl (AuthenticationError ''Authentication failed: 401 - {"error": "invalid_client"}''),
      stale_manager, [Clock 0, Request (auth_request test_settings)])
   \<and> token stale_manager = JStr ''old-token'' \<and> expires_at stale_manager = 60\<close>
proof -
  have h: \<open>get_token (mock_env [auth_denied]) stale_manager [] =
     (Inl (AuthenticationError ''Authentication failed: 401 - {"error": "invalid_client"}''),
      stale_manager, [Clock 0, Request (auth_request test_settings)])\<close>
    by code_simp
  show ?thesis
    using C10_auth_error_keeps_cache [OF h] h by (simp add: stale_manager_def)
qed

section \<open>Job submission\<close>

text \<open>
  Claim C5: a submit call whose POST is answered, after the headers were obtained.  Status
  400 raises \<open>QuerySyntaxError\<close> with a message that contains the response text.  Status 429
  raises \<open>RateLimitError\<close> whose \<open>retry_after\<close> is the integer value of the \<open>Retry-After\<close>
  header when \<open>int()\<close> accepts the header, and 60 when the header is absent; a header that
  \<open>int()\<close> refuses makes the call raise \<open>ValueError\<close> instead of \<open>RateLimitError\<close>.
\<close>

theorem C5_submit_errors:
  assumes "get_headers e tm tr = (Inr hs, tm1, tr1)"
    and "respond e (n_requests tr1) (submit_request (tm_settings tm1) hs q ea la) = Response r"
  shows "(status_code r = 400 \<longrightarrow>
            fst (submit_async e tm q ea la tr) = Inl (QuerySyntaxError (''Invalid query: '' @ resp_text r))
            \<and> sublist (resp_text r) (''Invalid query: '' @ resp_text r))
       \<and> (status_code r = 429 \<longrightarrow>
            (\<forall>v n. resp_header r ''Retry-After'' = Some v \<longrightarrow> py_int_of_str v = Some n \<longrightarrow>
               fst (submit_async e tm q ea la tr) = Inl (RateLimitError ''Rate limit exceeded'' n))
            \<and> (\<forall>v. resp_header r ''Retry-After'' = Some v \<longrightarrow> py_int_of_str v = None \<longrightarrow>
               fst (submit_async e tm q ea la tr) = Inl ValueError)
            \<and> (resp_header r ''Retry-After'' = None \<longrightarrow>
               fst (submit_async e tm q ea la tr) = Inl (RateLimitError ''Rate limit exceeded'' 60)))"
proof -
  have s: "sublist (resp_text r) (''Invalid query: '' @ resp_text r)"
    by (rule sublist_append_leftI)
  show ?thesis
    using assms s by (auto simp: submit_async_def http_def)
qed

text \<open>
  The three responses of the tests: 400 with a text, 429 with \<open>Retry-After: 120\<close>, and 429
  without the header; then a header with blanks and an underscore, and two headers that are
  not integers: seconds with a fraction, and an HTTP date.
\<close>

theorem C5_submit_errors_witness:
  "fst (submit_async (mock_env [auth_ok, http_response 400 ''Invalid query syntax'' []])
         (new_token_manager test_settings) ''bad query'' ''-1h'' ''now'' []) =
     Inl (QuerySyntaxError ''Invalid query: Invalid query syntax'')
   \<and> fst (submit_async (mock_env [auth_ok, http_response 429 [] [(''Retry-After'', ''120'')]])
         (new_token_manager test_settings) ''q'' ''-1h'' ''now'' []) =
     Inl (RateLimitError ''Rate limit exceeded'' 120)
   \<and> fst (submit_async (mock_env [auth_ok, http_response 429 [] []])
         (new_token_manager test_settings) ''q'' ''-1h'' ''now'' []) =
     Inl (RateLimitError ''Rate limit exceeded'' 60)
   \<and> fst (submit_async (mock_env [auth_ok, http_response 429 [] [(''Retry-After'', '' 1_0 '')]])
         (new_token_manager test_settings) ''q'' ''-1h'' ''now'' []) =
     Inl (RateLimitError ''Rate limit exceeded'' 10)
   \<and> fst (submit_async (mock_env [auth_ok, http_response 429 [] [(''Retry-After'', ''2.5'')]])
         (new_token_manager test_settings) ''q'' ''-1h'' ''now'' []) =
     Inl ValueError
   \<and> fst (submit_async (mock_env [auth_ok, rate_limited_until])
         (new_token_manager test_settings) ''q'' ''-1h'' ''now'' []) =
     Inl ValueError
   \<and> \<not> raises_rate_limit (fst (submit_async (mock_env [auth_ok, rate_limited_until])
         (new_token_manager test_settings) ''q'' ''-1h'' ''now'' []))"
proof -
  let ?tm = "new_token_manager test_settings"
  let ?tm1 = "\<lparr> tm_settings = test_settings, token = JStr ''mock-token'', expires_at = 86400 \<rparr>"
  let ?tr1 = "[Request (auth_request test_settings), Clock 0]"
  let ?e1 = "mock_env [auth_ok, http_response 400 ''Invalid query syntax'' []]"
  let ?e2 = "mock_env [auth_ok, http_response 429 [] [(''Retry-After'', ''120'')]]"
  let ?e3 = "mock_env [auth_ok, http_response 429 [] []]"
  let ?e4 = "mock_env [auth_ok, http_response 429 [] [(''Retry-After'', '' 1_0 '')]]"
  let ?e5 = "mock_env [auth_ok, http_response 429 [] [(''Retry-After'', ''2.5'')]]"
  let ?e6 = "mock_env [auth_ok, rate_limited_until]"
  let ?r1 = "\<lparr> status_code = 400, resp_text = ''Invalid query syntax'', resp_header = map_of [] \<rparr>"
  let ?r2 = "\<lparr> status_code = 429, resp_text = [], resp_header = map_of [(''Retry-After'', ''120'')] \<rparr>"
  let ?r3 = "\<lparr> status_code = 429, resp_text = [], resp_header = map_of [] \<rparr>"
  let ?r4 = "\<lparr> status_code = 429, resp_text = [], resp_header = map_of [(''Retry-After'', '' 1_0 '')] \<rparr>"
  let ?r5 = "\<lparr> status_code = 429, resp_text = [], resp_header = map_of [(''Retry-After'', ''2.5'')] \<rparr>"
  let ?r6 = "\<lparr> status_code = 429, resp_text = [],
      resp_header = map_of [(''Retry-After'', ''Wed, 21 Oct 2015 07:28:00 GMT'')] \<rparr>"
  have g1: "get_headers ?e1 ?tm [] = (Inr bearer_headers, ?tm1, ?tr1)" by code_simp
  have g2: "get_headers ?e2 ?tm [] = (Inr bearer_headers, ?tm1, ?tr1)" by code_simp
  have g3: "get_headers ?e3 ?tm [] = (Inr bearer_headers, ?tm1, ?tr1)" by code_simp
  have g4: "get_headers ?e4 ?tm [] = (Inr bearer_headers, ?tm1, ?tr1)" by code_simp
  have g5: "get_headers ?e5 ?tm [] = (Inr bearer_headers, ?tm1, ?tr1)" by code_simp
  have g6: "get_headers ?e6 ?tm [] = (Inr bearer_headers, ?tm1, ?tr1)" by code_simp
  have n: "n_requests ?tr1 = Suc 0" by (simp add: n_requests_def)
  have r1: "respond ?e1 (n_requests ?tr1)
      (submit_request (tm_settings ?tm1) bearer_headers ''bad query'' ''-1h'' ''now'') = Response ?r1"
    unfolding n by (simp add: mock_env_def http_response_def)
  have r2: "respond ?e2 (n_requests ?tr1)
      (submit_request (tm_settings ?tm1) bearer_headers ''q'' ''-1h'' ''now'') = Response ?r2"
    unfolding n by (simp add: mock_env_def http_response_def)
  have r3: "respond ?e3 (n_requests ?tr1)
      (submit_request (tm_settings ?tm1) bearer_headers ''q'' ''-1h'' ''now'') = Response ?r3"
    unfolding n by (simp add: mock_env_def http_response_def)
  have r4: "respond ?e4 (n_requests ?tr1)
      (submit_request (tm_settings ?tm1) bearer_headers ''q'' ''-1h'' ''now'') = Response ?r4"
    unfolding n by (simp add: mock_env_def http_response_def)
  have r5: "respond ?e5 (n_requests ?tr1)
      (submit_request (tm_settings ?tm1) bearer_headers ''q'' ''-1h'' ''now'') = Response ?r5"
    unfolding n by (simp add: mock_env_def http_response_def)
  have r6: "respond ?e6 (n_requests ?tr1)
      (submit_request (tm_settings ?tm1) bearer_headers ''q'' ''-1h'' ''now'') = Response ?r6"
    unfolding n by (simp add: mock_env_def http_response_def rate_limited_until_def)
  have i: "py_int_of_str ''120'' = Some 120" "py_int_of_str '' 1_0 '' = Some 10"
    "py_int_of_str ''2.5'' = None"
    "py_int_of_str ''Wed, 21 Oct 2015 07:28:00 GMT'' = None" by code_simp+
  show ?thesis
    using C5_submit_errors [OF g1 r1] C5_submit_errors [OF g2 r2] C5_submit_errors [OF g3 r3]
      C5_submit_errors [OF g4 r4] C5_submit_errors [OF g5 r5] C5_submit_errors [OF g6 r6] i
    by simp
qed

section \<open>Polling\<close>

text \<open>
  One iteration of the polling loop that is within the timeout and whose GET is answered
  with an item carrying a status the enumeration knows.
\<close>

lemma wait_iteration:
  assumes "\<not> clock e (n_clock tr) - st > t_out"
    and "status_reply e (n_requests tr) (status_request u hs) item"
    and "map_of item ''status'' = Some sv" and "JobStatus sv = Some s"
  shows "wait_loop (Suc fuel) e st t_out p u hs job tr =
     (if s = COMPLETED then
        (Returned,
         job\<lparr>status := s,
             record_count := (case map_of item ''numEvents'' of None \<Rightarrow> JInt 0 | Some n \<Rightarrow> n)\<rparr>,
         tr @ [Clock (clock e (n_clock tr)), Request (status_request u hs)])
      else if s = FAILED then
        (Raised (JobFailedError
           (case map_of item ''error'' of None \<Rightarrow> JStr ''Unknown error'' | Some m \<Rightarrow> m)
           (job_id job)),
         job\<lparr>status := s\<rparr>,
         tr @ [Clock (clock e (n_clock tr)), Request (status_request u hs)])
      else if s = CANCELED then
        (Raised (JobFailedError (JStr ''Job was canceled'') (job_id job)),
         job\<lparr>status := s\<rparr>,
         tr @ [Clock (clock e (n_clock tr)), Request (status_request u hs)])
      else
        wait_loop fuel e st t_out p u hs (job\<lparr>status := s\<rparr>)
          (tr @ [Clock (clock e (n_clock tr)), Request (status_request u hs), Sleep p]))"
proof -
  from assms(2) obtain r data where rd:
    "respond e (n_requests tr) (status_request u hs) = Response r" "is_success r"
    "loads e (resp_text r) = Some data" "first_item data = Inr (JObj item)"
    by (auto simp: status_reply_def split: reply.splits option.splits)
  show ?thesis
    using assms(1,3,4) rd by (simp add: time_time_def http_def)
qed

lemma wait_timeout:
  assumes "clock e (n_clock tr) - st > t_out"
  shows "wait_loop (Suc fuel) e st t_out p u hs job tr =
     (Raised (JobTimeoutError (timeout_message e (job_id job) t_out)), job,
      tr @ [Clock (clock e (n_clock tr))])"
  using assms by (simp add: time_time_def)

lemma wait_loop_step_cases:
  assumes "\<not> clock e (n_clock tr) - st > t_out"
  shows "(\<exists>out job'. wait_loop (Suc fuel) e st t_out p u hs job tr =
            (out, job', tr @ [Clock (clock e (n_clock tr)), Request (status_request u hs)]))
       \<or> (\<exists>job'. wait_loop (Suc fuel) e st t_out p u hs job tr =
            wait_loop fuel e st t_out p u hs job'
              (tr @ [Clock (clock e (n_clock tr)), Request (status_request u hs), Sleep p]))"
  using assms
  by (auto simp: time_time_def http_def split: reply.splits option.splits sum.splits)

lemma wait_loop_guarded:
  "\<exists>evs. snd (snd (wait_loop fuel e st t_out p u hs job tr)) = tr @ evs \<and> guarded st t_out evs"
proof (induction fuel arbitrary: job tr)
  case 0
  show ?case by simp
next
  case (Suc fuel)
  let ?c = "clock e (n_clock tr)"
  let ?rq = "status_request u hs"
  show ?case
  proof (cases "?c - st > t_out")
    case True
    have "guarded st t_out [Clock ?c]" by simp
    with wait_timeout [OF True] show ?thesis by fastforce
  next
    case False
    from wait_loop_step_cases [OF False, of fuel p u hs job]
    show ?thesis
    proof
      assume "\<exists>out job'. wait_loop (Suc fuel) e st t_out p u hs job tr =
            (out, job', tr @ [Clock ?c, Request ?rq])"
      moreover have "guarded st t_out [Clock ?c, Request ?rq]" using False by simp
      ultimately show ?thesis by fastforce
    next
      assume "\<exists>job'. wait_loop (Suc fuel) e st t_out p u hs job tr =
            wait_loop fuel e st t_out p u hs job' (tr @ [Clock ?c, Request ?rq, Sleep p])"
      then obtain job' where eq: "wait_loop (Suc fuel) e st t_out p u hs job tr =
            wait_loop fuel e st t_out p u hs job' (tr @ [Clock ?c, Request ?rq, Sleep p])"
        by blast
      from Suc.IH [of job' "tr @ [Clock ?c, Request ?rq, Sleep p]"]
      obtain evs where evs:
        "snd (snd (wait_loop fuel e st t_out p u hs job' (tr @ [Clock ?c, Request ?rq, Sleep p]))) =
           (tr @ [Clock ?c, Request ?rq, Sleep p]) @ evs" "guarded st t_out evs"
        by blast
      have "guarded st t_out (Clock ?c # Request ?rq # Sleep p # evs)"
        using False evs(2) by simp
      moreover have "snd (snd (wait_loop (Suc fuel) e st t_out p u hs job tr)) =
          tr @ (Clock ?c # Request ?rq # Sleep p # evs)"
        unfolding eq evs(1) by simp
      ultimately show ?thesis by blast
    qed
  qed
qed

text \<open>
  Claim C6.  Whatever the world does and however long the loop runs, the part of the trace
  the loop adds is \<^const>\<open>guarded\<close>: each status GET comes right after a reading of the clock
  that was not past the timeout, so the elapsed time is checked before every GET.  And an
  iteration that reads a clock past the timeout raises \<open>JobTimeoutError\<close> without issuing
  the GET; its message contains the job id and the timeout value.
\<close>

theorem C6_clock_checked_before_get:
  "(\<exists>evs. snd (snd (wait_loop fuel e st t_out p u hs job tr)) = tr @ evs \<and> guarded st t_out evs)
   \<and> (clock e (n_clock tr) - st > t_out \<longrightarrow>
        wait_loop (Suc fuel) e st t_out p u hs job tr =
          (Raised (JobTimeoutError (timeout_message e (job_id job) t_out)), job,
           tr @ [Clock (clock e (n_clock tr))])
        \<and> sublist (py_str (str_other e) (job_id job)) (timeout_message e (job_id job) t_out)
        \<and> sublist (str_float e t_out) (timeout_message e (job_id job) t_out))"
proof -
  have a: "sublist (py_str (str_other e) (job_id job)) (timeout_message e (job_id job) t_out)"
    unfolding timeout_message_def by (rule sublist_appendI)
  have "sublist (str_float e t_out)
      ((''Job '' @ py_str (str_other e) (job_id job) @ '' did not complete within '')
          @ str_float e t_out @ '' seconds'')"
    by (rule sublist_appendI)
  then have b: "sublist (str_float e t_out) (timeout_message e (job_id job) t_out)"
    unfolding timeout_message_def by simp
  show ?thesis
    using wait_loop_guarded [of fuel e st t_out p u hs job tr] wait_timeout [of t_out e tr st] a b
    by blast
qed

text \<open>Four seconds after the start, with a timeout of 2.5 seconds.\<close>

theorem C6_clock_checked_before_get_witness:
  "wait_loop 1 (mock_env []) 0 (5 / 2) (1 / 100) status_url_123 bearer_headers job_123
      [Clock 0, Clock 1, Clock 2, Clock 3] =
     (Raised (JobTimeoutError ''Job job-123 did not complete within 2.5 seconds''), job_123,
      [Clock 0, Clock 1, Clock 2, Clock 3, Clock 4])
   \<and> sublist ''job-123'' ''Job job-123 did not complete within 2.5 seconds''
   \<and> sublist ''2.5'' ''Job job-123 did not complete within 2.5 seconds''"
proof -
  let ?tr = "[Clock 0, Clock 1, Clock 2, Clock 3]"
  have c: "clock (mock_env []) (n_clock ?tr) = 4"
    by (simp add: mock_env_def n_clock_def)
  have h: "clock (mock_env []) (n_clock ?tr) - 0 > (5 / 2 :: real)"
    unfolding c by simp
  have m: "timeout_message (mock_env []) (job_id job_123) (5 / 2) =
      ''Job job-123 did not complete within 2.5 seconds''"
    by (simp add: timeout_message_def mock_env_def job_123_def SearchJob_def)
  have j: "py_str (str_other (mock_env [])) (job_id job_123) = ''job-123''"
    by (simp add: job_123_def SearchJob_def)
  have f: "str_float (mock_env []) (5 / 2) = ''2.5''"
    by (simp add: mock_env_def)
  from C6_clock_checked_before_get [of 0 "mock_env []" 0 "5 / 2" "1 / 100" status_url_123
      bearer_headers job_123 ?tr] h
  have "wait_loop (Suc 0) (mock_env []) 0 (5 / 2) (1 / 100) status_url_123 bearer_headers job_123 ?tr =
          (Raised (JobTimeoutError (timeout_message (mock_env []) (job_id job_123) (5 / 2))), job_123,
           ?tr @ [Clock (clock (mock_env []) (n_clock ?tr))])
        \<and> sublist (py_str (str_other (mock_env [])) (job_id job_123))
             (timeout_message (mock_env []) (job_id job_123) (5 / 2))
        \<and> sublist (str_float (mock_env []) (5 / 2))
             (timeout_message (mock_env []) (job_id job_123) (5 / 2))"
    by blast
  then show ?thesis
    unfolding m j f c by simp
qed

text \<open>
  Claim C7.  First part: an iteration within the timeout that observes \<open>completed\<close> sets the
  status, sets \<open>record_count\<close> to the item's \<open>numEvents\<close> (0 when absent) and returns.
  Second part: three polls within the timeout that observe \<open>running\<close>, \<open>running\<close> and
  \<open>completed\<close> with \<open>numEvents = 10\<close>: the call returns after exactly three status GETs
  with \<open>record_count = 10\<close>, having slept \<open>poll_interval\<close> after each of the first two.
\<close>

theorem C7_wait_completed:
  "(\<not> clock e (n_clock tr) - st > t_out
      \<and> status_reply e (n_requests tr) (status_request u hs) item
      \<and> map_of item ''status'' = Some (JStr ''completed'')
    \<longrightarrow> wait_loop (Suc fuel) e st t_out p u hs job tr =
          (Returned,
           job\<lparr>status := COMPLETED,
               record_count := (case map_of item ''numEvents'' of None \<Rightarrow> JInt 0 | Some n \<Rightarrow> n)\<rparr>,
           tr @ [Clock (clock e (n_clock tr)), Request (status_request u hs)]))
   \<and> (\<not> clock e (n_clock tr) - st > t_out
      \<and> \<not> clock e (Suc (n_clock tr)) - st > t_out
      \<and> \<not> clock e (Suc (Suc (n_clock tr))) - st > t_out
      \<and> status_reply e (n_requests tr) (status_request u hs) i1
      \<and> map_of i1 ''status'' = Some (JStr ''running'')
      \<and> status_reply e (Suc (n_requests tr)) (status_request u hs) i2
      \<and> map_of i2 ''status'' = Some (JStr ''running'')
      \<and> status_reply e (Suc (Suc (n_requests tr))) (status_request u hs) i3
      \<and> map_of i3 ''status'' = Some (JStr ''completed'')
      \<and> map_of i3 ''numEvents'' = Some (JInt 10)
    \<longrightarrow> wait_loop (Suc (Suc (Suc fuel))) e st t_out p u hs job tr =
          (Returned, job\<lparr>status := COMPLETED, record_count := JInt 10\<rparr>,
           tr @ [Clock (clock e (n_clock tr)), Request (status_request u hs), Sleep p,
                 Clock (clock e (Suc (n_clock tr))), Request (status_request u hs), Sleep p,
                 Clock (clock e (Suc (Suc (n_clock tr)))), Request (status_request u hs)]))"
proof (intro conjI impI)
  assume "\<not> clock e (n_clock tr) - st > t_out
      \<and> status_reply e (n_requests tr) (status_request u hs) item
      \<and> map_of item ''status'' = Some (JStr ''completed'')"
  then have h: "\<not> clock e (n_clock tr) - st > t_out"
    "status_reply e (n_requests tr) (status_request u hs) item"
    "map_of item ''status'' = Some (JStr ''completed'')" by simp_all
  have s: "JobStatus (JStr ''completed'') = Some COMPLETED" by (simp add: JobStatus_def)
  show "wait_loop (Suc fuel) e st t_out p u hs job tr =
          (Returned,
           job\<lparr>status := COMPLETED,
               record_count := (case map_of item ''numEvents'' of None \<Rightarrow> JInt 0 | Some n \<Rightarrow> n)\<rparr>,
           tr @ [Clock (clock e (n_clock tr)), Request (status_request u hs)])"
    using wait_iteration [OF h s, of fuel p job] by (simp del: wait_loop.simps)
next
  let ?rq = "status_request u hs"
  let ?c0 = "clock e (n_clock tr)"
  let ?c1 = "clock e (Suc (n_clock tr))"
  let ?c2 = "clock e (Suc (Suc (n_clock tr)))"
  let ?tr1 = "tr @ [Clock ?c0, Request ?rq, Sleep p]"
  let ?tr2 = "?tr1 @ [Clock ?c1, Request ?rq, Sleep p]"
  assume "\<not> clock e (n_clock tr) - st > t_out
      \<and> \<not> clock e (Suc (n_clock tr)) - st > t_out
      \<and> \<not> clock e (Suc (Suc (n_clock tr))) - st > t_out
      \<and> status_reply e (n_requests tr) (status_request u hs) i1
      \<and> map_of i1 ''status'' = Some (JStr ''running'')
      \<and> status_reply e (Suc (n_requests tr)) (status_request u hs) i2
      \<and> map_of i2 ''status'' = Some (JStr ''running'')
      \<and> status_reply e (Suc (Suc (n_requests tr))) (status_request u hs) i3
      \<and> map_of i3 ''status'' = Some (JStr ''completed'')
      \<and> map_of i3 ''numEvents'' = Some (JInt 10)"
  then have t: "\<not> ?c0 - st > t_out" "\<not> ?c1 - st > t_out" "\<not> ?c2 - st > t_out"
    and r1: "status_reply e (n_requests tr) ?rq i1" "map_of i1 ''status'' = Some (JStr ''running'')"
    and r2: "status_reply e (Suc (n_requests tr)) ?rq i2" "map_of i2 ''status'' = Some (JStr ''running'')"
    and r3: "status_reply e (Suc (Suc (n_requests tr))) ?rq i3"
      "map_of i3 ''status'' = Some (JStr ''completed'')" "map_of i3 ''numEvents'' = Some (JInt 10)"
    by simp_all
  have run: "JobStatus (JStr ''running'') = Some RUNNING" by (simp add: JobStatus_def)
  have com: "JobStatus (JStr ''completed'') = Some COMPLETED" by (simp add: JobStatus_def)
  have n1: "n_clock ?tr1 = Suc (n_clock tr)" "n_requests ?tr1 = Suc (n_requests tr)"
    by (simp_all add: n_clock_def n_requests_def)
  have n2: "n_clock ?tr2 = Suc (Suc (n_clock tr))" "n_requests ?tr2 = Suc (Suc (n_requests tr))"
    by (simp_all add: n_clock_def n_requests_def)
  have s1: "wait_loop (Suc (Suc (Suc fuel))) e st t_out p u hs job tr =
      wait_loop (Suc (Suc fuel)) e st t_out p u hs (job\<lparr>status := RUNNING\<rparr>) ?tr1"
    using wait_iteration [OF t(1) r1(1) r1(2) run, of "Suc (Suc fuel)" p job]
    by (simp del: wait_loop.simps)
  have t1: "\<not> clock e (n_clock ?tr1) - st > t_out" unfolding n1 by (rule t(2))
  have q1: "status_reply e (n_requests ?tr1) ?rq i2" unfolding n1 by (rule r2(1))
  have s2: "wait_loop (Suc (Suc fuel)) e st t_out p u hs (job\<lparr>status := RUNNING\<rparr>) ?tr1 =
      wait_loop (Suc fuel) e st t_out p u hs (job\<lparr>status := RUNNING\<rparr>) ?tr2"
    using wait_iteration [OF t1 q1 r2(2) run, of "Suc fuel" p "job\<lparr>status := RUNNING\<rparr>"]
    by (simp add: n_clock_def del: wait_loop.simps)
  have t2: "\<not> clock e (n_clock ?tr2) - st > t_out" unfolding n2 by (rule t(3))
  have q2: "status_reply e (n_requests ?tr2) ?rq i3" unfolding n2 by (rule r3(1))
  have s3: "wait_loop (Suc fuel) e st t_out p u hs (job\<lparr>status := RUNNING\<rparr>) ?tr2 =
      (Returned, job\<lparr>status := COMPLETED, record_count := JInt 10\<rparr>,
       ?tr2 @ [Clock ?c2, Request ?rq])"
    using wait_iteration [OF t2 q2 r3(2) com, of fuel p "job\<lparr>status := RUNNING\<rparr>"] r3(3)
    by (simp add: n_clock_def del: wait_loop.simps)
  show "wait_loop (Suc (Suc (Suc fuel))) e st t_out p u hs job tr =
          (Returned, job\<lparr>status := COMPLETED, record_count := JInt 10\<rparr>,
           tr @ [Clock ?c0, Request ?rq, Sleep p, Clock ?c1, Request ?rq, Sleep p,
                 Clock ?c2, Request ?rq])"
    unfolding s1 s2 s3 by (simp del: wait_loop.simps)
qed

text \<open>
  The server of \<open>test_wait_for_job_polls_until_complete\<close>, with \<open>numEvents = 10\<close> in the
  last answer, and a server that answers \<open>completed\<close> at once.
\<close>

theorem C7_wait_completed_witness:
  "wait_loop 1 (mock_env [status_completed]) 0 5 (1 / 100) status_url_123 bearer_headers
      job_123 [] =
     (Returned, job_123\<lparr>status := COMPLETED, record_count := JInt 10\<rparr>,
      [Clock 0, Request (status_request status_url_123 bearer_headers)])
   \<and> wait_loop 3 (mock_env [status_running, status_running, status_completed]) 0 5 (1 / 100)
       status_url_123 bearer_headers job_123 [] =
     (Returned, job_123\<lparr>status := COMPLETED, record_count := JInt 10\<rparr>,
      [Clock 0, Request (status_request status_url_123 bearer_headers), Sleep (1 / 100),
       Clock 1, Request (status_request status_url_123 bearer_headers), Sleep (1 / 100),
       Clock 2, Request (status_request status_url_123 bearer_headers)])"
proof -
  let ?e1 = "mock_env [status_completed]"
  let ?e3 = "mock_env [status_running, status_running, status_completed]"
  let ?rq = "status_request status_url_123 bearer_headers"
  let ?run = "[(''status'', JStr ''running'')]"
  let ?com = "[(''status'', JStr ''completed''), (''numEvents'', JInt 10)]"
  have c1: "\<not> clock ?e1 (n_clock []) - 0 > 5"
    by (simp add: mock_env_def n_clock_def)
  have a1: "status_reply ?e1 (n_requests []) ?rq ?com" by code_simp
  have c3: "\<not> clock ?e3 (n_clock []) - 0 > 5" "\<not> clock ?e3 (Suc (n_clock [])) - 0 > 5"
    "\<not> clock ?e3 (Suc (Suc (n_clock []))) - 0 > 5"
    by (simp_all add: mock_env_def n_clock_def)
  have b1: "status_reply ?e3 (n_requests []) ?rq ?run" by code_simp
  have b2: "status_reply ?e3 (Suc (n_requests [])) ?rq ?run" by code_simp
  have b3: "status_reply ?e3 (Suc (Suc (n_requests []))) ?rq ?com" by code_simp
  have m: "map_of ?run ''status'' = Some (JStr ''running'')"
    "map_of ?com ''status'' = Some (JStr ''completed'')"
    "map_of ?com ''numEvents'' = Some (JInt 10)"
    by simp_all
  have first: "wait_loop (Suc 0) ?e1 0 5 (1 / 100) status_url_123 bearer_headers job_123 [] =
     (Returned,
      job_123\<lparr>status := COMPLETED,
          record_count := (case map_of ?com ''numEvents'' of None \<Rightarrow> JInt 0 | Some n \<Rightarrow> n)\<rparr>,
      [] @ [Clock (clock ?e1 (n_clock [])), Request ?rq])"
    using C7_wait_completed [where e = ?e1 and tr = "[]" and st = 0 and t_out = 5
        and u = status_url_123 and hs = bearer_headers and item = ?com and fuel = 0
        and p = "1 / 100" and job = job_123] c1 a1 m(2)
    by blast
  have second: "wait_loop (Suc (Suc (Suc 0))) ?e3 0 5 (1 / 100) status_url_123 bearer_headers
      job_123 [] =
     (Returned, job_123\<lparr>status := COMPLETED, record_count := JInt 10\<rparr>,
      [] @ [Clock (clock ?e3 (n_clock [])), Request ?rq, Sleep (1 / 100),
            Clock (clock ?e3 (Suc (n_clock []))), Request ?rq, Sleep (1 / 100),
            Clock (clock ?e3 (Suc (Suc (n_clock [])))), Request ?rq])"
    using C7_wait_completed [where e = ?e3 and tr = "[]" and st = 0 and t_out = 5
        and u = status_url_123 and hs = bearer_headers and ?i1.0 = ?run and ?i2.0 = ?run
        and ?i3.0 = ?com and fuel = 0 and p = "1 / 100" and job = job_123] c3 b1 b2 b3 m
    by blast
  have k: "clock ?e1 (n_clock []) = 0" "clock ?e3 (n_clock []) = 0"
    "clock ?e3 (Suc (n_clock [])) = 1" "clock ?e3 (Suc (Suc (n_clock []))) = 2"
    by (simp_all add: mock_env_def n_clock_def)
  have n: "(1::nat) = Suc 0" "(3::nat) = Suc (Suc (Suc 0))" by simp_all
  show ?thesis
    unfolding n using first second unfolding k by (simp del: wait_loop.simps)
qed

text \<open>
  Claim C8.  An iteration within the timeout that observes \<open>failed\<close> raises \<open>JobFailedError\<close>
  with the item's \<open>error\<close> as message (\<open>Unknown error\<close> when absent) and the job id; one
  that observes \<open>canceled\<close> raises \<open>JobFailedError\<close> with the message \<open>Job was canceled\<close>
  and the job id.
\<close>

theorem C8_wait_failed_canceled:
  "(\<not> clock e (n_clock tr) - st > t_out
      \<and> status_reply e (n_requests tr) (status_request u hs) item
      \<and> map_of item ''status'' = Some (JStr ''failed'')
    \<longrightarrow> wait_loop (Suc fuel) e st t_out p u hs job tr =
          (Raised (JobFailedError
             (case map_of item ''error'' of None \<Rightarrow> JStr ''Unknown error'' | Some m \<Rightarrow> m)
             (job_id job)),
           job\<lparr>status := FAILED\<rparr>,
           tr @ [Clock (clock e (n_clock tr)), Request (status_request u hs)]))
   \<and> (\<not> clock e (n_clock tr) - st > t_out
      \<and> status_reply e (n_requests tr) (status_request u hs) item
      \<and> map_of item ''status'' = Some (JStr ''canceled'')
    \<longrightarrow> wait_loop (Suc fuel) e st t_out p u hs job tr =
          (Raised (JobFailedError (JStr ''Job was canceled'') (job_id job)),
           job\<lparr>status := CANCELED\<rparr>,
           tr @ [Clock (clock e (n_clock tr)), Request (status_request u hs)])
        \<and> sublist ''canceled'' ''Job was canceled'')"
proof (intro conjI impI)
  assume "\<not> clock e (n_clock tr) - st > t_out
      \<and> status_reply e (n_requests tr) (status_request u hs) item
      \<and> map_of item ''status'' = Some (JStr ''failed'')"
  then have h: "\<not> clock e (n_clock tr) - st > t_out"
    "status_reply e (n_requests tr) (status_request u hs) item"
    "map_of item ''status'' = Some (JStr ''failed'')" by simp_all
  have s: "JobStatus (JStr ''failed'') = Some FAILED" by (simp add: JobStatus_def)
  show "wait_loop (Suc fuel) e st t_out p u hs job tr =
          (Raised (JobFailedError
             (case map_of item ''error'' of None \<Rightarrow> JStr ''Unknown error'' | Some m \<Rightarrow> m)
             (job_id job)),
           job\<lparr>status := FAILED\<rparr>,
           tr @ [Clock (clock e (n_clock tr)), Request (status_request u hs)])"
    using wait_iteration [OF h s, of fuel p job] by (simp del: wait_loop.simps)
next
  assume "\<not> clock e (n_clock tr) - st > t_out
      \<and> status_reply e (n_requests tr) (status_request u hs) item
      \<and> map_of item ''status'' = Some (JStr ''canceled'')"
  then have h: "\<not> clock e (n_clock tr) - st > t_out"
    "status_reply e (n_requests tr) (status_request u hs) item"
    "map_of item ''status'' = Some (JStr ''canceled'')" by simp_all
  have s: "JobStatus (JStr ''canceled'') = Some CANCELED" by (simp add: JobStatus_def)
  show "wait_loop (Suc fuel) e st t_out p u hs job tr =
          (Raised (JobFailedError (JStr ''Job was canceled'') (job_id job)),
           job\<lparr>status := CANCELED\<rparr>,
           tr @ [Clock (clock e (n_clock tr)), Request (status_request u hs)])"
    using wait_iteration [OF h s, of fuel p job] by (simp del: wait_loop.simps)
next
  have "sublist ''canceled'' (''Job was '' @ ''canceled'')" by (rule sublist_append_leftI)
  then show "sublist ''canceled'' ''Job was canceled''" by simp
qed

text \<open>The answers of \<open>test_wait_for_job_raises_failed\<close> and \<open>test_wait_for_job_raises_on_canceled\<close>.\<close>

theorem C8_wait_failed_canceled_witness:
  "wait_loop 1 (mock_env [status_failed]) 0 5 (1 / 10) status_url_123 bearer_headers job_123 [] =
     (Raised (JobFailedError (JStr ''Dataset not found'') (JStr ''job-123'')),
      job_123\<lparr>status := FAILED\<rparr>,
      [Clock 0, Request (status_request status_url_123 bearer_headers)])
   \<and> wait_loop 1 (mock_env [status_canceled]) 0 5 (1 / 10) status_url_123 bearer_headers
       job_123 [] =
     (Raised (JobFailedError (JStr ''Job was canceled'') (JStr ''job-123'')),
      job_123\<lparr>status := CANCELED\<rparr>,
      [Clock 0, Request (status_request status_url_123 bearer_headers)])"
proof -
  let ?e1 = "mock_env [status_failed]"
  let ?e2 = "mock_env [status_canceled]"
  let ?rq = "status_request status_url_123 bearer_headers"
  let ?fl = "[(''status'', JStr ''failed''), (''error'', JStr ''Dataset not found'')]"
  let ?cn = "[(''status'', JStr ''canceled'')]"
  have c: "\<not> clock ?e1 (n_clock []) - 0 > 5" "\<not> clock ?e2 (n_clock []) - 0 > 5"
    by (simp_all add: mock_env_def n_clock_def)
  have a1: "status_reply ?e1 (n_requests []) ?rq ?fl" by code_simp
  have a2: "status_reply ?e2 (n_requests []) ?rq ?cn" by code_simp
  have m: "map_of ?fl ''status'' = Some (JStr ''failed'')"
    "map_of ?cn ''status'' = Some (JStr ''canceled'')"
    by simp_all
  have first: "wait_loop (Suc 0) ?e1 0 5 (1 / 10) status_url_123 bearer_headers job_123 [] =
     (Raised (JobFailedError
        (case map_of ?fl ''error'' of None \<Rightarrow> JStr ''Unknown error'' | Some m \<Rightarrow> m)
        (job_id job_123)),
      job_123\<lparr>status := FAILED\<rparr>,
      [] @ [Clock (clock ?e1 (n_clock [])), Request ?rq])"
    using C8_wait_failed_canceled [where e = ?e1 and tr = "[]" and st = 0 and t_out = 5
        and u = status_url_123 and hs = bearer_headers and item = ?fl and fuel = 0
        and p = "1 / 10" and job = job_123] c(1) a1 m(1)
    by blast
  have second: "wait_loop (Suc 0) ?e2 0 5 (1 / 10) status_url_123 bearer_headers job_123 [] =
     (Raised (JobFailedError (JStr ''Job was canceled'') (job_id job_123)),
      job_123\<lparr>status := CANCELED\<rparr>,
      [] @ [Clock (clock ?e2 (n_clock [])), Request ?rq])"
    using C8_wait_failed_canceled [where e = ?e2 and tr = "[]" and st = 0 and t_out = 5
        and u = status_url_123 and hs = bearer_headers and item = ?cn and fuel = 0
        and p = "1 / 10" and job = job_123] c(2) a2 m(2)
    by blast
  have k: "clock ?e1 (n_clock []) = 0" "clock ?e2 (n_clock []) = 0"
    by (simp_all add: mock_env_def n_clock_def)
  have j: "job_id job_123 = JStr ''job-123''" by (simp add: job_123_def SearchJob_def)
  have n: "(1::nat) = Suc 0" by simp
  show ?thesis
    unfolding n using first second unfolding k j by (simp del: wait_loop.simps)
qed

section \<open>The status of a job\<close>

text \<open>
  Claim C9 says that a job's status only moves forward and that no operation changes a
  terminal status.  The code has no such guard: every poll assigns \<open>job.status\<close> whatever
  the server reports.  Waiting again on a job that is \<open>COMPLETED\<close>, against a server that
  answers \<open>running\<close>, leaves the job \<open>RUNNING\<close> when the call ends with a timeout.
\<close>

theorem C9_terminal_status_overwritten:
  "status completed_job = COMPLETED
   \<and> fst (fst (wait_for_job 5 (mock_env [auth_ok, status_running])
          (new_token_manager test_settings) completed_job (1 / 100) (5 / 2) [])) =
       Raised (JobTimeoutError ''Job job-123 did not complete within 2.5 seconds'')
   \<and> status (fst (snd (fst (wait_for_job 5 (mock_env [auth_ok, status_running])
          (new_token_manager test_settings) completed_job (1 / 100) (5 / 2) [])))) = RUNNING
   \<and> \<not> forward (status completed_job)
         (status (fst (snd (fst (wait_for_job 5 (mock_env [auth_ok, status_running])
            (new_token_manager test_settings) completed_job (1 / 100) (5 / 2) [])))))"
  by code_simp

text \<open>
  Claim C9 as amended.  A poll within the timeout that observes a status \<open>s\<close> sets the job's
  status to \<open>s\<close>, whatever it was before.  If \<open>s\<close> is terminal the call ends with that poll
  (it is not pending, however much fuel is left, and no further event follows), so a wait
  call never overwrites a terminal status it has set itself; if \<open>s\<close> is not terminal the
  loop sleeps and goes on with status \<open>s\<close>.
\<close>

theorem C9_status_follows_server:
  "\<not> clock e (n_clock tr) - st > t_out
     \<and> status_reply e (n_requests tr) (status_request u hs) item
     \<and> map_of item ''status'' = Some sv \<and> JobStatus sv = Some s
   \<longrightarrow> status (fst (snd (wait_loop 1 e st t_out p u hs job tr))) = s
     \<and> (if terminal s
        then fst (wait_loop (Suc fuel) e st t_out p u hs job tr) \<noteq> Pending
           \<and> status (fst (snd (wait_loop (Suc fuel) e st t_out p u hs job tr))) = s
           \<and> snd (snd (wait_loop (Suc fuel) e st t_out p u hs job tr)) =
               tr @ [Clock (clock e (n_clock tr)), Request (status_request u hs)]
        else wait_loop (Suc fuel) e st t_out p u hs job tr =
               wait_loop fuel e st t_out p u hs (job\<lparr>status := s\<rparr>)
                 (tr @ [Clock (clock e (n_clock tr)), Request (status_request u hs), Sleep p]))"
proof
  assume "\<not> clock e (n_clock tr) - st > t_out
     \<and> status_reply e (n_requests tr) (status_request u hs) item
     \<and> map_of item ''status'' = Some sv \<and> JobStatus sv = Some s"
  then have h: "\<not> clock e (n_clock tr) - st > t_out"
    "status_reply e (n_requests tr) (status_request u hs) item"
    "map_of item ''status'' = Some sv" "JobStatus sv = Some s" by simp_all
  note it = wait_iteration [OF h]
  have one: "status (fst (snd (wait_loop 1 e st t_out p u hs job tr))) = s"
    using it [of 0 p job] by (cases s) simp_all
  have rest: "if terminal s
        then fst (wait_loop (Suc fuel) e st t_out p u hs job tr) \<noteq> Pending
           \<and> status (fst (snd (wait_loop (Suc fuel) e st t_out p u hs job tr))) = s
           \<and> snd (snd (wait_loop (Suc fuel) e st t_out p u hs job tr)) =
               tr @ [Clock (clock e (n_clock tr)), Request (status_request u hs)]
        else wait_loop (Suc fuel) e st t_out p u hs job tr =
               wait_loop fuel e st t_out p u hs (job\<lparr>status := s\<rparr>)
                 (tr @ [Clock (clock e (n_clock tr)), Request (status_request u hs), Sleep p])"
    using it [of fuel p job] by (cases s) (simp_all add: terminal_def del: wait_loop.simps)
  from one rest
  show "status (fst (snd (wait_loop 1 e st t_out p u hs job tr))) = s
     \<and> (if terminal s
        then fst (wait_loop (Suc fuel) e st t_out p u hs job tr) \<noteq> Pending
           \<and> status (fst (snd (wait_loop (Suc fuel) e st t_out p u hs job tr))) = s
           \<and> snd (snd (wait_loop (Suc fuel) e st t_out p u hs job tr)) =
               tr @ [Clock (clock e (n_clock tr)), Request (status_request u hs)]
        else wait_loop (Suc fuel) e st t_out p u hs job tr =
               wait_loop fuel e st t_out p u hs (job\<lparr>status := s\<rparr>)
                 (tr @ [Clock (clock e (n_clock tr)), Request (status_request u hs), Sleep p]))"
    by blast
qed

text \<open>
  A poll that observes \<open>running\<close> on a completed job, and a poll that observes \<open>failed\<close>
  with fuel for three iterations.
\<close>

theorem C9_status_follows_server_witness:
  "status (fst (snd (wait_loop 1 (mock_env [status_running]) 0 5 (1 / 100) status_url_123
        bearer_headers completed_job []))) = RUNNING
   \<and> wait_loop 3 (mock_env [status_running]) 0 5 (1 / 100) status_url_123 bearer_headers
        completed_job [] =
      wait_loop 2 (mock_env [status_running]) 0 5 (1 / 100) status_url_123 bearer_headers
        (completed_job\<lparr>status := RUNNING\<rparr>)
        [Clock 0, Request (status_request status_url_123 bearer_headers), Sleep (1 / 100)]
   \<and> fst (wait_loop 3 (mock_env [status_failed]) 0 5 (1 / 100) status_url_123 bearer_headers
        job_123 []) \<noteq> Pending
   \<and> status (fst (snd (wait_loop 3 (mock_env [status_failed]) 0 5 (1 / 100) status_url_123
        bearer_headers job_123 []))) = FAILED
   \<and> snd (snd (wait_loop 3 (mock_env [status_failed]) 0 5 (1 / 100) status_url_123
        bearer_headers job_123 [])) =
      [Clock 0, Request (status_request status_url_123 bearer_headers)]"
proof -
  let ?e1 = "mock_env [status_running]"
  let ?e2 = "mock_env [status_failed]"
  let ?rq = "status_request status_url_123 bearer_headers"
  let ?run = "[(''status'', JStr ''running'')]"
  let ?fl = "[(''status'', JStr ''failed''), (''error'', JStr ''Dataset not found'')]"
  have c: "\<not> clock ?e1 (n_clock []) - 0 > 5" "\<not> clock ?e2 (n_clock []) - 0 > 5"
    by (simp_all add: mock_env_def n_clock_def)
  have a1: "status_reply ?e1 (n_requests []) ?rq ?run" by code_simp
  have a2: "status_reply ?e2 (n_requests []) ?rq ?fl" by code_simp
  have m: "map_of ?run ''status'' = Some (JStr ''running'')"
    "map_of ?fl ''status'' = Some (JStr ''failed'')"
    by simp_all
  have s: "JobStatus (JStr ''running'') = Some RUNNING" "JobStatus (JStr ''failed'') = Some FAILED"
    by (simp_all add: JobStatus_def)
  have t: "\<not> terminal RUNNING" "terminal FAILED" by (simp_all add: terminal_def)
  have k: "clock ?e1 (n_clock []) = 0" "clock ?e2 (n_clock []) = 0"
    by (simp_all add: mock_env_def n_clock_def)
  have n: "(3::nat) = Suc 2" by simp
  have first: "status (fst (snd (wait_loop 1 ?e1 0 5 (1 / 100) status_url_123 bearer_headers
        completed_job []))) = RUNNING
     \<and> wait_loop (Suc 2) ?e1 0 5 (1 / 100) status_url_123 bearer_headers completed_job [] =
        wait_loop 2 ?e1 0 5 (1 / 100) status_url_123 bearer_headers
          (completed_job\<lparr>status := RUNNING\<rparr>)
          ([] @ [Clock (clock ?e1 (n_clock [])), Request ?rq, Sleep (1 / 100)])"
    using C9_status_follows_server [where e = ?e1 and tr = "[]" and st = 0 and t_out = 5
        and u = status_url_123 and hs = bearer_headers and item = ?run
        and sv = "JStr ''running''" and s = RUNNING and fuel = 2
        and p = "1 / 100" and job = completed_job] c(1) a1 m(1) s(1) t(1)
    by presburger
  have second: "fst (wait_loop (Suc 2) ?e2 0 5 (1 / 100) status_url_123 bearer_headers
        job_123 []) \<noteq> Pending
     \<and> status (fst (snd (wait_loop (Suc 2) ?e2 0 5 (1 / 100) status_url_123 bearer_headers
        job_123 []))) = FAILED
     \<and> snd (snd (wait_loop (Suc 2) ?e2 0 5 (1 / 100) status_url_123 bearer_headers
        job_123 [])) = [] @ [Clock (clock ?e2 (n_clock [])), Request ?rq]"
    using C9_status_follows_server [where e = ?e2 and tr = "[]" and st = 0 and t_out = 5
        and u = status_url_123 and hs = bearer_headers and item = ?fl
        and sv = "JStr ''failed''" and s = FAILED and fuel = 2
        and p = "1 / 100" and job = job_123] c(2) a2 m(2) s(2) t(2)
    by presburger
  show ?thesis
    unfolding n using first second unfolding k by (simp del: wait_loop.simps)
qed

end
